theory Spec2Isabelle
  imports Main
begin

section \<open>Chunk arithmetic of the materialization runner\<close>

text \<open>
  The runner package declares \<^verbatim>\<open>const MAXIMUM_CHUNK_ROWS int64 = 1024\<close>.  Row counts,
  chunk sizes and chunk counts are Go \<^verbatim>\<open>int64\<close> values.  They are modelled as
  \<open>int\<close> with the two's complement wrap-around of a 64-bit result written out, and with
  Go's division, which truncates towards zero.
\<close>

definition MAXIMUM_CHUNK_ROWS :: int where
  "MAXIMUM_CHUNK_ROWS = 1024"

definition is_int64 :: "int \<Rightarrow> bool" where
  "is_int64 x \<longleftrightarrow> - (2 ^ 63) \<le> x \<and> x < 2 ^ 63"

definition wrap_int64 :: "int \<Rightarrow> int" where
  "wrap_int64 x = (x + 2 ^ 63) mod 2 ^ 64 - 2 ^ 63"

definition wrap_int32 :: "int \<Rightarrow> int" where
  "wrap_int32 x = (x + 2 ^ 31) mod 2 ^ 32 - 2 ^ 31"

definition go_div :: "int \<Rightarrow> int \<Rightarrow> int" where
  "go_div a b = (if (a < 0) = (b < 0) then \<bar>a\<bar> div \<bar>b\<bar> else - (\<bar>a\<bar> div \<bar>b\<bar>))"

text \<open>
  Lines 78 to 94 of \<^verbatim>\<open>MaterializeRunner.Run\<close>: from the row count of the
  materialization to the pair \<open>(chunkSize, numChunks)\<close>.  \<open>chunkSize\<close> starts at
  \<open>MAXIMUM_CHUNK_ROWS\<close> and \<open>numChunks\<close> at the zero value of \<^verbatim>\<open>int64\<close>; the
  branches are kept in the order of the source, the second one included although the first
  one takes every row count for which it could matter.
\<close>

definition chunk_plan :: "int \<Rightarrow> int \<times> int" where
  "chunk_plan numRows =
     (let chunkSize = MAXIMUM_CHUNK_ROWS; numChunks = (0::int) in
      if numRows \<le> MAXIMUM_CHUNK_ROWS then (numRows, 1)
      else if chunkSize = 0 then (chunkSize, 0)
      else if numRows > chunkSize then
        (let numChunks = go_div numRows chunkSize in
         if wrap_int64 (chunkSize * numChunks) < numRows
         then (chunkSize, wrap_int64 (numChunks + 1))
         else (chunkSize, numChunks))
      else (chunkSize, numChunks))"

definition chunkSize_of :: "int \<Rightarrow> int" where
  "chunkSize_of numRows = fst (chunk_plan numRows)"

definition numChunks_of :: "int \<Rightarrow> int" where
  "numChunks_of numRows = snd (chunk_plan numRows)"

section \<open>Errors, watchers and the collaborators of the runner\<close>

text \<open>
  A Go \<^verbatim>\<open>error\<close> is a value.  \<open>TableAlreadyExists\<close> is the provider's typed
  error \<^verbatim>\<open>*provider.TableAlreadyExists\<close>, the one the type assertion on line 73
  recognises; \<open>OtherError\<close> is any other error a collaborator hands back;
  \<open>Errorf msg\<close> is \<^verbatim>\<open>fmt.Errorf(msg)\<close> and \<open>ErrorfW msg err\<close> is
  \<^verbatim>\<open>fmt.Errorf(msg + ": %w", err)\<close>, an error that wraps \<open>err\<close>.  A nil error is
  \<open>None\<close>.
\<close>

datatype go_error =
    TableAlreadyExists string string
  | OtherError string
  | Errorf string
  | ErrorfW string go_error

text \<open>
  \<^verbatim>\<open>_, exists := err.(*provider.TableAlreadyExists)\<close>: the assertion looks at the
  dynamic type of the error itself, not through wrappers, and yields false on nil.
\<close>

fun is_TableAlreadyExists :: "go_error option \<Rightarrow> bool" where
  "is_TableAlreadyExists (Some (TableAlreadyExists name variant)) = True"
| "is_TableAlreadyExists _ = False"

text \<open>
  A \<^verbatim>\<open>CompletionWatcher\<close> is an interface; what a watcher answers is the data of
  the model.  \<open>Wait\<close> blocks until the watched work is terminal, so its outcome is
  either a returned error value or never returning.
\<close>

datatype wait_outcome = Blocks | Returns "go_error option"

record CompletionWatcher =
  Complete :: bool
  Wait :: wait_outcome
  Err :: "go_error option"

record WatcherMultiplex =
  CompletionList :: "CompletionWatcher list"

fun all_complete :: "bool \<Rightarrow> CompletionWatcher list \<Rightarrow> bool" where
  "all_complete complete [] = complete"
| "all_complete complete (completion # rest) =
     all_complete (complete \<and> Complete completion) rest"

definition WatcherMultiplex_Complete :: "WatcherMultiplex \<Rightarrow> bool" where
  "WatcherMultiplex_Complete w = all_complete True (CompletionList w)"

text \<open>
  \<^verbatim>\<open>WatcherMultiplex.Wait\<close>, lines 50 to 57.  The loop calls \<open>Wait\<close> on the
  children in list order and returns at the first error.  The model returns, next to the
  outcome, the children on which \<open>Wait\<close> was called, in the order of the calls.
\<close>

fun wait_loop :: "CompletionWatcher list \<Rightarrow> CompletionWatcher list \<times> wait_outcome" where
  "wait_loop [] = ([], Returns None)"
| "wait_loop (completion # rest) =
     (case Wait completion of
        Blocks \<Rightarrow> ([completion], Blocks)
      | Returns (Some err) \<Rightarrow> ([completion], Returns (Some err))
      | Returns None \<Rightarrow>
          (let (awaited, outcome) = wait_loop rest in (completion # awaited, outcome)))"

definition WatcherMultiplex_Wait ::
  "WatcherMultiplex \<Rightarrow> CompletionWatcher list \<times> wait_outcome" where
  "WatcherMultiplex_Wait w = wait_loop (CompletionList w)"

fun err_loop :: "CompletionWatcher list \<Rightarrow> go_error option" where
  "err_loop [] = None"
| "err_loop (completion # rest) =
     (case Err completion of Some err \<Rightarrow> Some err | None \<Rightarrow> err_loop rest)"

definition WatcherMultiplex_Err :: "WatcherMultiplex \<Rightarrow> go_error option" where
  "WatcherMultiplex_Err w = err_loop (CompletionList w)"

text \<open>
  Provider identifiers and stores.  The stores are interfaces of the provider package;
  the model keeps, for each method \<open>Run\<close> calls, what the store answers.
\<close>

datatype OfflineResourceType = NoType | Label | Feature | TrainingSet | Primary | Transformation

record ResourceID =
  Name :: string
  Variant :: string
  Type :: OfflineResourceType

record Materialization =
  mat_ID :: string
  NumRows :: "go_error + int"

record OnlineStore =
  online_Type :: string
  online_Config :: string
  CreateTable :: "string \<Rightarrow> string \<Rightarrow> string \<Rightarrow> go_error option"

record OfflineStore =
  offline_Type :: string
  offline_Config :: string
  CreateMaterialization :: "ResourceID \<Rightarrow> go_error + Materialization"

type_synonym JobCloud = string

definition KubernetesMaterializeRunner :: JobCloud where
  "KubernetesMaterializeRunner = ''KUBERNETES''"

definition LocalMaterializeRunner :: JobCloud where
  "LocalMaterializeRunner = ''LOCAL''"

definition WORKER_IMAGE :: string where
  "WORKER_IMAGE = ''featureformcom/worker''"

record MaterializeRunner =
  Online :: OnlineStore
  Offline :: OfflineStore
  ID :: ResourceID
  VType :: string
  Cloud :: JobCloud

text \<open>
  Modelled from the spec: the declaration of \<^verbatim>\<open>MaterializedChunkRunnerConfig\<close> is
  not in the source.  The spec (6) lists seven fields, the seven that the composite literal
  of lines 95 to 103 sets.  A field the literal does not set would hold its zero value in
  every configuration \<open>Run\<close> builds.
\<close>

record MaterializedChunkRunnerConfig =
  OnlineType :: string
  OfflineType :: string
  OnlineConfig :: string
  OfflineConfig :: string
  MaterializedID :: string
  ResourceID :: ResourceID
  ChunkSize :: int

record KubernetesRunnerConfig =
  EnvVars :: "(string \<times> string) list"
  Image :: string
  NumTasks :: int

record Runner =
  runner_Run :: "go_error + CompletionWatcher"

text \<open>
  Modelled from the spec: the declaration of the runner name \<^verbatim>\<open>COPY_TO_ONLINE\<close> is
  not in the source; the spec lists \<open>COPY_TO_ONLINE\<close> among the registered runner names.
\<close>

definition COPY_TO_ONLINE :: string where
  "COPY_TO_ONLINE = ''COPY_TO_ONLINE''"

text \<open>
  The functions \<open>Run\<close> calls that live outside the file: the serializer of the chunk
  configuration, the constructor of the Kubernetes runner and the registry's
  \<open>Create\<close>.  They are parameters of the model.  \<open>Create\<close> is called once per
  chunk; its first argument is the number of earlier calls in this run, so that a registry
  or factory with state is covered.  The last parameter is the Go runtime's answer to
  \<^verbatim>\<open>make([]CompletionWatcher, n)\<close> on line 126: whether it panics, as it does for a
  negative length and for a length beyond the allocation limit of the platform.
\<close>

record collaborators =
  Serialize :: "MaterializedChunkRunnerConfig \<Rightarrow> go_error + string"
  NewKubernetesRunner :: "KubernetesRunnerConfig \<Rightarrow> go_error + Runner"
  Create :: "nat \<Rightarrow> string \<Rightarrow> string \<Rightarrow> go_error + Runner"
  makeslice_panics :: "int \<Rightarrow> bool"

text \<open>The calls \<open>Run\<close> makes on its collaborators, recorded in order.\<close>

datatype call =
    Call_CreateMaterialization ResourceID
  | Call_CreateTable string string string
  | Call_NumRows
  | Call_Serialize MaterializedChunkRunnerConfig
  | Call_NewKubernetesRunner KubernetesRunnerConfig
  | Call_KubernetesRun
  | Call_Create string string
  | Call_LocalRun

datatype cloudWatcher =
    KubernetesWatcher CompletionWatcher
  | LocalWatcher WatcherMultiplex

text \<open>
  How a call of \<open>Run\<close> ends: it returns an error, it returns a watcher (the
  \<^verbatim>\<open>SyncWatcher\<close>, given here by the cloud watcher it waits on), or it panics and
  returns nothing.
\<close>

datatype run_result =
    ReturnsError go_error
  | ReturnsWatcher cloudWatcher
  | Panics string

section \<open>MaterializeRunner.Run\<close>

text \<open>
  The result of \<open>Run\<close> is the pair of how it ends and the calls it made.  The getters
  \<open>Type\<close>, \<open>Config\<close> and \<open>ID\<close> read a field and are not recorded.

  The loop of the local branch, lines 127 to 140: one \<open>Create\<close> and one \<open>Run\<close> per
  chunk, the watchers collected in index order; the first failure ends \<open>Run\<close>.  The
  slice of line 126 has \<open>int(numChunks)\<close> nil entries and entry \<open>i\<close> is assigned in
  round \<open>i\<close>, so after the loop it holds the watchers in order; the model appends.
\<close>

function local_loop ::
  "collaborators \<Rightarrow> string \<Rightarrow> nat \<Rightarrow> nat \<Rightarrow> CompletionWatcher list \<Rightarrow> call list
     \<Rightarrow> (go_error + CompletionWatcher list) \<times> call list" where
  "local_loop env serializedConfig n i completionList tr =
     (if i < n then
        (case Create env i COPY_TO_ONLINE serializedConfig of
           Inl err \<Rightarrow>
             (Inl (ErrorfW ''local runner create'' err),
              tr @ [Call_Create COPY_TO_ONLINE serializedConfig])
         | Inr localRunner \<Rightarrow>
             (case runner_Run localRunner of
                Inl err \<Rightarrow>
                  (Inl (ErrorfW ''local runner run'' err),
                   tr @ [Call_Create COPY_TO_ONLINE serializedConfig, Call_LocalRun])
              | Inr watcher \<Rightarrow>
                  local_loop env serializedConfig n (Suc i) (completionList @ [watcher])
                    (tr @ [Call_Create COPY_TO_ONLINE serializedConfig, Call_LocalRun])))
      else (Inr completionList, tr))"
  by pat_completeness auto
termination
  by (relation "measure (\<lambda>(env, serializedConfig, n, i, completionList, tr). n - i)") auto

declare local_loop.simps [simp del]

text \<open>
  Lines 111 to 116: the configuration of the one Kubernetes job.  \<open>int32(numChunks)\<close>
  keeps the low 32 bits.
\<close>

definition kubernetes_config :: "string \<Rightarrow> int \<Rightarrow> KubernetesRunnerConfig" where
  "kubernetes_config serializedConfig numChunks =
     (let envVars = [(''NAME'', COPY_TO_ONLINE), (''CONFIG'', serializedConfig)] in
      \<lparr>EnvVars = envVars, Image = WORKER_IMAGE, NumTasks = wrap_int32 numChunks\<rparr>)"

text \<open>The \<^verbatim>\<open>switch m.Cloud\<close> of lines 109 to 145.\<close>

definition dispatch ::
  "collaborators \<Rightarrow> JobCloud \<Rightarrow> string \<Rightarrow> int \<Rightarrow> call list
     \<Rightarrow> run_result \<times> call list" where
  "dispatch env cloud serializedConfig numChunks tr =
     (if cloud = KubernetesMaterializeRunner then
        (let kubernetesConfig = kubernetes_config serializedConfig numChunks;
             tr1 = tr @ [Call_NewKubernetesRunner kubernetesConfig] in
         case NewKubernetesRunner env kubernetesConfig of
           Inl err \<Rightarrow> (ReturnsError (ErrorfW ''kubernetes runner'' err), tr1)
         | Inr kubernetesRunner \<Rightarrow>
             (case runner_Run kubernetesRunner of
                Inl err \<Rightarrow>
                  (ReturnsError (ErrorfW ''kubernetes run'' err), tr1 @ [Call_KubernetesRun])
              | Inr watcher \<Rightarrow>
                  (ReturnsWatcher (KubernetesWatcher watcher), tr1 @ [Call_KubernetesRun])))
      else if cloud = LocalMaterializeRunner then
        (if makeslice_panics env numChunks
         then (Panics ''makeslice: len out of range'', tr)
         else
           (case local_loop env serializedConfig (nat numChunks) 0 [] tr of
              (Inl err, tr1) \<Rightarrow> (ReturnsError err, tr1)
            | (Inr completionList, tr1) \<Rightarrow>
                (ReturnsWatcher (LocalWatcher \<lparr>CompletionList = completionList\<rparr>), tr1)))
      else (ReturnsError (Errorf ''no valid job cloud set''), tr))"

text \<open>Lines 78 to 145: row count, chunk plan, configuration, serialization, dispatch.\<close>

definition chunk_config ::
  "MaterializeRunner \<Rightarrow> Materialization \<Rightarrow> int \<Rightarrow> MaterializedChunkRunnerConfig" where
  "chunk_config m materialization chunkSize =
     \<lparr>OnlineType = online_Type (Online m),
      OfflineType = offline_Type (Offline m),
      OnlineConfig = online_Config (Online m),
      OfflineConfig = offline_Config (Offline m),
      MaterializedID = mat_ID materialization,
      ResourceID = ID m,
      ChunkSize = chunkSize\<rparr>"

definition Run_from_rows ::
  "collaborators \<Rightarrow> MaterializeRunner \<Rightarrow> Materialization \<Rightarrow> call list
     \<Rightarrow> run_result \<times> call list" where
  "Run_from_rows env m materialization tr =
     (let tr1 = tr @ [Call_NumRows] in
      case NumRows materialization of
        Inl err \<Rightarrow> (ReturnsError (ErrorfW ''num rows'' err), tr1)
      | Inr numRows \<Rightarrow>
          (let (chunkSize, numChunks) = chunk_plan numRows;
               config = chunk_config m materialization chunkSize;
               tr2 = tr1 @ [Call_Serialize config] in
           case Serialize env config of
             Inl err \<Rightarrow> (ReturnsError (ErrorfW ''serialize '' err), tr2)
           | Inr serializedConfig \<Rightarrow>
               dispatch env (Cloud m) serializedConfig numChunks tr2))"

text \<open>Lines 67 to 76, then the rest.\<close>

definition Run ::
  "collaborators \<Rightarrow> MaterializeRunner \<Rightarrow> run_result \<times> call list" where
  "Run env m =
     (let tr1 = [Call_CreateMaterialization (ID m)] in
      case CreateMaterialization (Offline m) (ID m) of
        Inl err \<Rightarrow> (ReturnsError err, tr1)
      | Inr materialization \<Rightarrow>
          (let err = CreateTable (Online m) (Name (ID m)) (Variant (ID m)) (VType m);
               exists = is_TableAlreadyExists err;
               tr2 = tr1 @ [Call_CreateTable (Name (ID m)) (Variant (ID m)) (VType m)] in
           if err \<noteq> None \<and> \<not> exists
           then (ReturnsError (ErrorfW ''create table'' (the err)), tr2)
           else Run_from_rows env m materialization tr2))"

text \<open>
  Lines 146 to 158: the returned watcher ends when the goroutine has waited on the cloud
  watcher, with the error wrapped, or never if that wait never returns.
\<close>

definition cloudWatcher_Wait :: "cloudWatcher \<Rightarrow> wait_outcome" where
  "cloudWatcher_Wait cw =
     (case cw of
        KubernetesWatcher w \<Rightarrow> Wait w
      | LocalWatcher w \<Rightarrow> snd (WatcherMultiplex_Wait w))"

definition materializeWatcher_end :: "cloudWatcher \<Rightarrow> wait_outcome" where
  "materializeWatcher_end cw =
     (case cloudWatcher_Wait cw of
        Blocks \<Rightarrow> Blocks
      | Returns (Some err) \<Rightarrow> Returns (Some (ErrorfW ''cloud watch'' err))
      | Returns None \<Rightarrow> Returns None)"

text \<open>
  A concrete run, used to evaluate the model: a feature with \<open>numRows\<close> rows in the
  offline store, an online store whose \<open>CreateTable\<close> answers \<open>created\<close>,
  collaborators that always succeed, and the allocation limit of a 64-bit platform
  (\<open>2 ^ 48\<close> bytes, 16 bytes per watcher).
\<close>

definition example_watcher :: CompletionWatcher where
  "example_watcher = \<lparr>Complete = True, Wait = Returns None, Err = None\<rparr>"

definition example_collaborators :: collaborators where
  "example_collaborators =
     \<lparr>Serialize = (\<lambda>config. Inr (''chunk config of '' @ MaterializedID config)),
      NewKubernetesRunner = (\<lambda>config. Inr \<lparr>runner_Run = Inr example_watcher\<rparr>),
      Create = (\<lambda>i name config. Inr \<lparr>runner_Run = Inr example_watcher\<rparr>),
      makeslice_panics = (\<lambda>n. n < 0 \<or> 2 ^ 44 < n)\<rparr>"

definition example_runner :: "int \<Rightarrow> go_error option \<Rightarrow> JobCloud \<Rightarrow> MaterializeRunner" where
  "example_runner numRows created cloud =
     \<lparr>Online = \<lparr>online_Type = ''REDIS_ONLINE'', online_Config = ''redis'',
                 CreateTable = (\<lambda>name variant vtype. created)\<rparr>,
      Offline = \<lparr>offline_Type = ''POSTGRES_OFFLINE'', offline_Config = ''postgres'',
                  CreateMaterialization =
                    (\<lambda>resID. Inr \<lparr>mat_ID = ''m1'', NumRows = Inr numRows\<rparr>)\<rparr>,
      ID = \<lparr>Name = ''feature'', Variant = [], Type = Feature\<rparr>,
      VType = ''int'',
      Cloud = cloud\<rparr>"

text \<open>The serialized configurations handed to \<open>Create\<close>, one per chunk worker, in order.\<close>

fun local_configs :: "call list \<Rightarrow> string list" where
  "local_configs [] = []"
| "local_configs (Call_Create name config # rest) = config # local_configs rest"
| "local_configs (c # rest) = local_configs rest"

section \<open>Template resolver\<close>

text \<open>
  Modelled from the spec: \<^verbatim>\<open>templateReplace\<close> is called by the tests but its body
  is not in the source.  The spec (4.5): the input is a template with zero or more
  occurrences of \<^verbatim>\<open>{{key}}\<close> and a mapping from keys to identifiers; the output is the
  template with each occurrence substituted by the identifier wrapped in double quotes; an
  occurrence with no mapping fails with an unresolved-reference error naming the missing
  key, and no partial string is emitted; matching is exact, nested braces are not
  supported, substitution is purely textual.  The function returns the Go pair of a string
  and an error.  The template is read once from left to right: outside a placeholder
  (\<open>None\<close>) text is copied until \<^verbatim>\<open>{{\<close>; inside (\<open>Some key\<close>) the key is collected
  until the next \<^verbatim>\<open>}}\<close>.  The spec does not say what an opening \<^verbatim>\<open>{{\<close> with no
  closing \<^verbatim>\<open>}}\<close> is; here it is no occurrence and is copied as text.
\<close>

definition dquote :: char where
  "dquote = CHR 0x22"

definition quoted :: "string \<Rightarrow> string" where
  "quoted v = dquote # v @ [dquote]"

definition unresolved_reference :: "string \<Rightarrow> go_error" where
  "unresolved_reference key = Errorf (''unresolved reference: '' @ key)"

fun emit :: "string \<Rightarrow> string \<times> go_error option \<Rightarrow> string \<times> go_error option" where
  "emit s (out, None) = (s @ out, None)"
| "emit s (out, Some err) = ([], Some err)"

fun scan ::
  "(string \<rightharpoonup> string) \<Rightarrow> string option \<Rightarrow> string \<Rightarrow> string \<times> go_error option" where
  "scan M None [] = ([], None)"
| "scan M None [c] = ([c], None)"
| "scan M None (c # d # rest) =
     (if c = CHR ''{'' \<and> d = CHR ''{'' then scan M (Some []) rest
      else emit [c] (scan M None (d # rest)))"
| "scan M (Some key) [] = (''{{'' @ key, None)"
| "scan M (Some key) [c] = (''{{'' @ key @ [c], None)"
| "scan M (Some key) (c # d # rest) =
     (if c = CHR ''}'' \<and> d = CHR ''}'' then
        (case M key of
           None \<Rightarrow> ([], Some (unresolved_reference key))
         | Some v \<Rightarrow> emit (quoted v) (scan M None rest))
      else scan M (Some (key @ [c])) (d # rest))"

definition templateReplace ::
  "string \<Rightarrow> (string \<rightharpoonup> string) \<Rightarrow> string \<times> go_error option" where
  "templateReplace template replacements = scan replacements None template"

text \<open>
  The words of the spec, to compare the scanner with: a template is a sequence of text
  pieces and placeholder occurrences.  \<open>parse\<close> cuts a template at the first
  \<^verbatim>\<open>{{\<close> and at the first \<^verbatim>\<open>}}\<close> after it, again and again; \<open>unparse\<close> writes the
  pieces back; \<open>render\<close> substitutes.
\<close>

datatype segment = Lit string | Placeholder string

fun split_on :: "char \<Rightarrow> string \<Rightarrow> (string \<times> string) option" where
  "split_on c (x # y # rest) =
     (if x = c \<and> y = c then Some ([], rest)
      else map_option (\<lambda>(pre, post). (x # pre, post)) (split_on c (y # rest)))"
| "split_on c [x] = None"
| "split_on c [] = None"

function parse :: "string \<Rightarrow> segment list" where
  "parse template =
     (case split_on (CHR ''{'') template of
        None \<Rightarrow> [Lit template]
      | Some (pre, post) \<Rightarrow>
          (case split_on (CHR ''}'') post of
             None \<Rightarrow> [Lit template]
           | Some (key, rest) \<Rightarrow> Lit pre # Placeholder key # parse rest))"
  by pat_completeness auto
termination
proof (relation "measure length")
  show "wf (measure length)" by simp
next
  fix template :: string and x2 pre post x2a key rest
  assume cut: "split_on (CHR ''{'') template = Some x2" "(pre, post) = x2"
    "split_on (CHR ''}'') post = Some x2a" "(key, rest) = x2a"
  have shorter: "split_on c s = Some (a, b) \<Longrightarrow> length b < length s" for c s a b
    by (induction c s arbitrary: a rule: split_on.induct) (fastforce split: if_splits)+
  from cut have "length post < length template" "length rest < length post"
    by (auto dest: shorter)
  then show "(rest, template) \<in> measure length" by simp
qed

declare parse.simps [simp del]

fun unparse_segment :: "segment \<Rightarrow> string" where
  "unparse_segment (Lit s) = s"
| "unparse_segment (Placeholder key) = ''{{'' @ key @ ''}}''"

definition unparse :: "segment list \<Rightarrow> string" where
  "unparse segs = concat (map unparse_segment segs)"

fun segment_keys :: "segment list \<Rightarrow> string list" where
  "segment_keys [] = []"
| "segment_keys (Lit s # segs) = segment_keys segs"
| "segment_keys (Placeholder key # segs) = key # segment_keys segs"

definition placeholders :: "string \<Rightarrow> string list" where
  "placeholders template = segment_keys (parse template)"

fun render :: "(string \<rightharpoonup> string) \<Rightarrow> segment \<Rightarrow> string" where
  "render M (Lit s) = s"
| "render M (Placeholder key) = (case M key of Some v \<Rightarrow> quoted v | None \<Rightarrow> [])"

definition substituted :: "string \<Rightarrow> (string \<rightharpoonup> string) \<Rightarrow> string" where
  "substituted template M = concat (map (render M) (parse template))"

fun first_missing :: "(string \<rightharpoonup> string) \<Rightarrow> string list \<Rightarrow> string option" where
  "first_missing M [] = None"
| "first_missing M (key # keys) = (if M key = None then Some key else first_missing M keys)"

section \<open>Dependency resolution of a transformation\<close>

text \<open>
  Modelled from the spec: \<^verbatim>\<open>mapNameVariantsToTables\<close> and the transformation routine
  are called by the tests but their bodies are not in the source.  The spec (4.5, 4.6): the
  coordinator resolves each dependency's name and variant to a provider-side table name
  through \<^verbatim>\<open>mapNameVariantsToTables\<close>, which errors if any dependency is absent or not
  ready; the mapping is keyed by \<^verbatim>\<open>"<name>.<variant>"\<close>.  The transformation routine
  verifies the dependencies, builds the mapping, applies the template resolver and calls
  \<^verbatim>\<open>CreateTransformation(id, resolvedSQL)\<close>; it errors if a dependency is unresolved or
  not ready, or if the resolver fails.  Statuses are those of the spec (3).
\<close>

datatype ResourceStatus = CREATED | PENDING | READY | READY_ONLINE | FAILED

type_synonym NameVariant = "string \<times> string"

record SourceVariant =
  source_status :: ResourceStatus
  source_table :: string

fun mapNameVariantsToTables ::
  "(NameVariant \<rightharpoonup> SourceVariant) \<Rightarrow> NameVariant list \<Rightarrow> go_error + (string \<rightharpoonup> string)" where
  "mapNameVariantsToTables sources [] = Inr Map.empty"
| "mapNameVariantsToTables sources ((name, variant) # rest) =
     (case sources (name, variant) of
        None \<Rightarrow> Inl (Errorf (''source not found: '' @ name @ ''.'' @ variant))
      | Some source \<Rightarrow>
          if source_status source \<noteq> READY
          then Inl (Errorf (''source not ready: '' @ name @ ''.'' @ variant))
          else (case mapNameVariantsToTables sources rest of
                  Inl err \<Rightarrow> Inl err
                | Inr tables \<Rightarrow> Inr (tables(name @ ''.'' @ variant \<mapsto> source_table source))))"

datatype provider_call = Call_CreateTransformation ResourceID string

definition runSQLJob ::
  "(NameVariant \<rightharpoonup> SourceVariant) \<Rightarrow> (ResourceID \<Rightarrow> string \<Rightarrow> go_error option)
     \<Rightarrow> ResourceID \<Rightarrow> string \<Rightarrow> NameVariant list \<Rightarrow> go_error option \<times> provider_call list" where
  "runSQLJob sources CreateTransformation resID template deps =
     (case mapNameVariantsToTables sources deps of
        Inl err \<Rightarrow> (Some err, [])
      | Inr tables \<Rightarrow>
          (case templateReplace template tables of
             (sql, Some err) \<Rightarrow> (Some err, [])
           | (sql, None) \<Rightarrow>
               (CreateTransformation resID sql, [Call_CreateTransformation resID sql])))"

section \<open>Runner registry and job spawners\<close>

text \<open>
  Modelled from the spec: the registry's \<^verbatim>\<open>Create\<close> and the two
  \<^verbatim>\<open>GetJobRunner\<close> methods are called by the tests but their bodies are not in the
  source.  The spec (4.3, 4.4): the registry maps a runner name to a factory from
  configuration bytes to a runner, and \<^verbatim>\<open>Create(name, config)\<close> errors on an unknown
  name.  The in-process spawner looks the factory up and instantiates directly.  The cluster
  spawner constructs a job object whose image is the worker image, with the environment
  variables \<^verbatim>\<open>NAME\<close>, \<^verbatim>\<open>CONFIG\<close> and \<^verbatim>\<open>ETCD_ENDPOINTS\<close>; unknown runner names
  must error before any submission.  The state a spawner could touch is the registry and
  the jobs submitted to the cluster; both are returned with the result.
\<close>

type_synonym registry = "string \<rightharpoonup> (string \<Rightarrow> go_error + Runner)"

record spawner_state =
  factories :: registry
  submitted :: "KubernetesRunnerConfig list"

definition registry_Create :: "registry \<Rightarrow> string \<Rightarrow> string \<Rightarrow> go_error + Runner" where
  "registry_Create reg name config =
     (case reg name of
        None \<Rightarrow> Inl (Errorf (''factory does not exist: '' @ name))
      | Some factory \<Rightarrow> factory config)"

definition MemoryJobSpawner_GetJobRunner ::
  "spawner_state \<Rightarrow> string \<Rightarrow> string \<Rightarrow> string list \<Rightarrow> ResourceID
     \<Rightarrow> (go_error + Runner) \<times> spawner_state" where
  "MemoryJobSpawner_GetJobRunner st jobName config etcdEndpoints resID =
     (registry_Create (factories st) jobName config, st)"

fun join_comma :: "string list \<Rightarrow> string" where
  "join_comma [] = []"
| "join_comma [e] = e"
| "join_comma (e # es) = e @ '','' @ join_comma es"

definition KubernetesJobSpawner_GetJobRunner ::
  "spawner_state \<Rightarrow> string \<Rightarrow> string \<Rightarrow> string list \<Rightarrow> ResourceID
     \<Rightarrow> (go_error + KubernetesRunnerConfig) \<times> spawner_state" where
  "KubernetesJobSpawner_GetJobRunner st jobName config etcdEndpoints resID =
     (case factories st jobName of
        None \<Rightarrow> (Inl (Errorf (''factory does not exist: '' @ jobName)), st)
      | Some factory \<Rightarrow>
          (Inr \<lparr>EnvVars = [(''NAME'', jobName), (''CONFIG'', config),
                             (''ETCD_ENDPOINTS'', join_comma etcdEndpoints)],
                 Image = WORKER_IMAGE, NumTasks = 1\<rparr>, st))"

section \<open>The coordinator's job protocol\<close>

text \<open>
  Modelled from the spec: \<^verbatim>\<open>executeJob\<close> is called by the tests but its body is not in
  the source.  The spec (4.6), for a job key: (1) try to acquire the lock, and skip if it is
  busy; (2) read the resource, and if it is already ready or ready-online delete the job key
  and release the lock; (3) set the status to pending; (4) dispatch to the routine of the
  kind; (5) on success set the status to ready, or ready-online for a feature materialized
  online, delete the job key, submit a cron object if the schedule is not empty, release
  the lock; (6) on failure set the status to failed, delete the job key, release the lock.
  A missing resource is the not-found error of (7): the job key is deleted.  What the
  routine of the kind answers is a parameter.
\<close>

datatype ResourceKind =
  PrimaryKind | TransformationKind | FeatureKind | LabelKind | TrainingSetKind | SourceKind

type_synonym JobID = "ResourceKind \<times> string \<times> string"

record coordinator_state =
  statuses :: "JobID \<rightharpoonup> ResourceStatus"
  schedules :: "JobID \<Rightarrow> string"
  jobs :: "JobID set"
  locks :: "JobID set"
  crons :: "(JobID \<times> string) list"

definition success_status :: "JobID \<Rightarrow> ResourceStatus" where
  "success_status resID = (if fst resID = FeatureKind then READY_ONLINE else READY)"

definition acquire :: "JobID \<Rightarrow> coordinator_state \<Rightarrow> coordinator_state" where
  "acquire resID s = s\<lparr>locks := insert resID (locks s)\<rparr>"

definition release :: "JobID \<Rightarrow> coordinator_state \<Rightarrow> coordinator_state" where
  "release resID s = s\<lparr>locks := locks s - {resID}\<rparr>"

definition delete_job :: "JobID \<Rightarrow> coordinator_state \<Rightarrow> coordinator_state" where
  "delete_job resID s = s\<lparr>jobs := jobs s - {resID}\<rparr>"

definition set_status :: "JobID \<Rightarrow> ResourceStatus \<Rightarrow> coordinator_state \<Rightarrow> coordinator_state" where
  "set_status resID status s = s\<lparr>statuses := (statuses s)(resID \<mapsto> status)\<rparr>"

definition submit_cron :: "JobID \<Rightarrow> coordinator_state \<Rightarrow> coordinator_state" where
  "submit_cron resID s =
     (if schedules s resID \<noteq> [] then s\<lparr>crons := crons s @ [(resID, schedules s resID)]\<rparr>
      else s)"

definition executeJob ::
  "(JobID \<Rightarrow> go_error option) \<Rightarrow> coordinator_state \<Rightarrow> JobID
     \<Rightarrow> coordinator_state \<times> go_error option" where
  "executeJob routine s resID =
     (if resID \<in> locks s then (s, None)
      else
        (let held = acquire resID s in
         case statuses held resID of
           None \<Rightarrow>
             (release resID (delete_job resID held), Some (Errorf ''resource not found''))
         | Some status \<Rightarrow>
             if status = READY \<or> status = READY_ONLINE
             then (release resID (delete_job resID held), None)
             else
               (let pending = set_status resID PENDING held in
                case routine resID of
                  None \<Rightarrow>
                    (release resID
                       (submit_cron resID
                          (delete_job resID
                             (set_status resID (success_status resID) pending))), None)
                | Some err \<Rightarrow>
                    (release resID (delete_job resID (set_status resID FAILED pending)),
                     Some err))))"

section \<open>Properties of the chunk arithmetic\<close>

lemma go_div_nonneg: "0 \<le> a \<Longrightarrow> 0 < b \<Longrightarrow> go_div a b = a div b"
  by (simp add: go_div_def)

lemma wrap_int64_id: "is_int64 x \<Longrightarrow> wrap_int64 x = x"
  unfolding is_int64_def wrap_int64_def by (simp add: mod_pos_pos_trivial)

lemma chunk_plan_small: "numRows \<le> 1024 \<Longrightarrow> chunk_plan numRows = (numRows, 1)"
  by (simp add: chunk_plan_def MAXIMUM_CHUNK_ROWS_def)

lemma chunk_plan_large:
  assumes "1024 < numRows" "numRows < 2 ^ 63"
  shows "chunk_plan numRows = (1024, (numRows + 1023) div 1024)"
proof -
  have d: "go_div numRows 1024 = numRows div 1024"
    using assms by (simp add: go_div_nonneg)
  have le: "1024 * (numRows div 1024) \<le> numRows" by simp
  have w1: "wrap_int64 (1024 * (numRows div 1024)) = 1024 * (numRows div 1024)"
    using assms le by (intro wrap_int64_id) (simp add: is_int64_def)
  have w2: "wrap_int64 (numRows div 1024 + 1) = numRows div 1024 + 1"
    using assms by (intro wrap_int64_id) (simp add: is_int64_def)
  show ?thesis
    using assms d w1 w2
    by (auto simp add: chunk_plan_def MAXIMUM_CHUNK_ROWS_def Let_def)
qed

lemma round_up_covers: "(n::int) \<le> (n + 1023) div 1024 * 1024"
proof -
  have "(n + 1023) mod 1024 < 1024" by simp
  moreover have "(n + 1023) div 1024 * 1024 + (n + 1023) mod 1024 = n + 1023" by simp
  ultimately show ?thesis by linarith
qed

lemma round_up_tight: "((n::int) + 1023) div 1024 * 1024 \<le> n + 1023"
proof -
  have "0 \<le> (n + 1023) mod 1024" by simp
  moreover have "(n + 1023) div 1024 * 1024 + (n + 1023) mod 1024 = n + 1023" by simp
  ultimately show ?thesis by linarith
qed

lemma full_chunks_before_last:
  fixes j n :: int
  assumes "0 \<le> j" "j < (n + 1023) div 1024 - 1"
  shows "(j + 1) * 1024 \<le> n"
proof -
  have "j + 2 \<le> (n + 1023) div 1024" using assms by simp
  then have "(j + 2) * 1024 \<le> (n + 1023) div 1024 * 1024" by simp
  then show ?thesis using round_up_tight [of n] by simp
qed

lemma chunk_plan_positive_rows:
  assumes "1 \<le> n" and "is_int64 n"
  shows "chunkSize_of n = min n MAXIMUM_CHUNK_ROWS
       \<and> numChunks_of n = (n + chunkSize_of n - 1) div chunkSize_of n"
proof (cases "n \<le> 1024")
  case True
  then have cs: "chunkSize_of n = n" and nc: "numChunks_of n = 1"
    by (simp_all add: chunkSize_of_def numChunks_of_def chunk_plan_small)
  have "(n + n - 1) div n = 1"
  proof -
    have "n + n - 1 = 1 * n + (n - 1)" by simp
    then have "(n + n - 1) div n = 1 + (n - 1) div n"
      using assms(1) by (metis add.commute div_mult_self2 not_one_le_zero mult.commute)
    then show ?thesis using assms(1) by simp
  qed
  then show ?thesis unfolding cs nc using True by (simp add: MAXIMUM_CHUNK_ROWS_def)
next
  case False
  then have big: "1024 < n" by simp
  have lt: "n < 2 ^ 63" using assms(2) by (simp add: is_int64_def)
  have cp: "chunk_plan n = (1024, (n + 1023) div 1024)"
    by (rule chunk_plan_large [OF big lt])
  show ?thesis
    using big by (simp add: chunkSize_of_def numChunks_of_def cp MAXIMUM_CHUNK_ROWS_def)
qed

text \<open>
  C1.  The claim: \<open>Run\<close> computes \<open>chunkSize = min(numRows, 1024)\<close> and
  \<open>numChunks = ceil(numRows / chunkSize)\<close>, and for \<open>numRows = 0\<close> the computed
  \<open>numChunks\<close> is 0.  Evaluated at \<open>numRows = 0\<close>: the first branch
  (\<open>numRows \<le> MAXIMUM_CHUNK_ROWS\<close>) takes the empty materialization and sets
  \<open>numChunks = 1\<close> with \<open>chunkSize = 0\<close>; the branch that would set
  \<open>numChunks = 0\<close> tests \<open>chunkSize = 0\<close> while \<open>chunkSize\<close> is still 1024 and is
  never taken.
\<close>

theorem chunk_plan_zero_rows:
  "chunk_plan 0 = (0, 1) \<and> chunkSize_of 0 = 0 \<and> numChunks_of 0 = 1 \<and> numChunks_of 0 \<noteq> 0"
  by (simp add: chunkSize_of_def numChunks_of_def chunk_plan_small)

text \<open>
  C7.  For every row count \<open>n \<ge> 0\<close> (an \<^verbatim>\<open>int64\<close>), the computed chunk size is at
  most 1024, the chunks cover the rows (\<open>numChunks * chunkSize \<ge> n\<close>), and at most one
  chunk is partial: every chunk before the last is full, that is, chunk \<open>j\<close> with
  \<open>j < numChunks - 1\<close> ends at row \<open>(j + 1) * chunkSize \<le> n\<close>.
\<close>

theorem chunk_arithmetic:
  assumes "0 \<le> n" and "is_int64 n"
  shows "chunkSize_of n \<le> MAXIMUM_CHUNK_ROWS
       \<and> n \<le> numChunks_of n * chunkSize_of n
       \<and> (numChunks_of n - 1) * chunkSize_of n \<le> n
       \<and> (\<forall>j. 0 \<le> j \<and> j < numChunks_of n - 1 \<longrightarrow> (j + 1) * chunkSize_of n \<le> n)"
proof (cases "n \<le> 1024")
  case True
  then have cs: "chunkSize_of n = n" and nc: "numChunks_of n = 1"
    by (simp_all add: chunkSize_of_def numChunks_of_def chunk_plan_small)
  show ?thesis
    unfolding cs nc using True assms(1) by (simp add: MAXIMUM_CHUNK_ROWS_def)
next
  case False
  then have big: "1024 < n" by simp
  have lt: "n < 2 ^ 63" using assms(2) by (simp add: is_int64_def)
  have cp: "chunk_plan n = (1024, (n + 1023) div 1024)"
    by (rule chunk_plan_large [OF big lt])
  have cs: "chunkSize_of n = 1024" and nc: "numChunks_of n = (n + 1023) div 1024"
    by (simp_all add: chunkSize_of_def numChunks_of_def cp)
  have b': "((n + 1023) div 1024 - 1) * 1024 \<le> n"
    using round_up_tight [of n] by (simp add: algebra_simps)
  have c': "\<forall>j. 0 \<le> j \<and> j < (n + 1023) div 1024 - 1 \<longrightarrow> (j + 1) * 1024 \<le> n"
    using full_chunks_before_last [of _ n] by blast
  have m: "(1024::int) \<le> MAXIMUM_CHUNK_ROWS" by (simp add: MAXIMUM_CHUNK_ROWS_def)
  show ?thesis
    unfolding cs nc using round_up_covers [of n] b' c' m by (intro conjI)
qed

theorem chunk_arithmetic_witness:
  "(0::int) \<le> 2500 \<and> is_int64 2500 \<and> chunk_plan 2500 = (1024, 3)
       \<and> chunkSize_of 2500 \<le> MAXIMUM_CHUNK_ROWS
       \<and> 2500 \<le> numChunks_of 2500 * chunkSize_of 2500
       \<and> (numChunks_of 2500 - 1) * chunkSize_of 2500 \<le> 2500
       \<and> (1 + 1) * chunkSize_of 2500 \<le> 2500"
proof -
  have h1: "(0::int) \<le> 2500" by simp
  have h2: "is_int64 2500" by (simp add: is_int64_def)
  have v: "chunk_plan 2500 = (1024, 3)"
    by (simp add: chunk_plan_def MAXIMUM_CHUNK_ROWS_def go_div_def wrap_int64_def)
  have nc: "numChunks_of 2500 = 3" by (simp add: numChunks_of_def v)
  note t = chunk_arithmetic [OF h1 h2]
  have j: "(0::int) \<le> 1 \<and> 1 < numChunks_of 2500 - 1" by (simp add: nc)
  have last: "(1 + 1) * chunkSize_of 2500 \<le> 2500"
    using t j by blast
  show ?thesis
    using h1 h2 v t last by blast
qed

section \<open>Properties of the watchers\<close>

lemma wait_loop_takeWhile:
  "wait_loop ws =
     (case dropWhile (\<lambda>c. Wait c = Returns None) ws of
        [] \<Rightarrow> (ws, Returns None)
      | c # rest \<Rightarrow> (takeWhile (\<lambda>c. Wait c = Returns None) ws @ [c], Wait c))"
proof (induction ws)
  case Nil
  then show ?case by simp
next
  case (Cons w ws)
  show ?case
  proof (cases "Wait w")
    case Blocks
    then show ?thesis by simp
  next
    case (Returns eo)
    show ?thesis
    proof (cases eo)
      case (Some err)
      then show ?thesis using Returns by simp
    next
      case None
      have step: "wait_loop (w # ws) =
          (let (awaited, outcome) = wait_loop ws in (w # awaited, outcome))"
        using Returns None by simp
      have dw: "dropWhile (\<lambda>c. Wait c = Returns None) (w # ws)
          = dropWhile (\<lambda>c. Wait c = Returns None) ws"
        and tw: "takeWhile (\<lambda>c. Wait c = Returns None) (w # ws)
          = w # takeWhile (\<lambda>c. Wait c = Returns None) ws"
        using Returns None by simp_all
      show ?thesis
      proof (cases "dropWhile (\<lambda>c. Wait c = Returns None) ws")
        case Nil
        show ?thesis unfolding step dw tw Cons.IH Nil by simp
      next
        case d: (Cons c rest)
        show ?thesis unfolding step dw tw Cons.IH d by simp
      qed
    qed
  qed
qed

text \<open>
  C3, as stated: \<open>Wait\<close> returns the first child error observed, and it awaits every
  child watcher to completion before returning even when some child returns an error.
  The second half fails: with a first child whose wait returns an error and a second child
  still running, \<open>Wait\<close> returns after the first child and never calls \<open>Wait\<close> on the
  second.
\<close>

theorem WatcherMultiplex_Wait_skips_children:
  "fst (WatcherMultiplex_Wait
     \<lparr>CompletionList =
        [\<lparr>Complete = True, Wait = Returns (Some (OtherError ''chunk failed'')),
          Err = Some (OtherError ''chunk failed'')\<rparr>,
         \<lparr>Complete = False, Wait = Returns None, Err = None\<rparr>]\<rparr>)
   = [\<lparr>Complete = True, Wait = Returns (Some (OtherError ''chunk failed'')),
          Err = Some (OtherError ''chunk failed'')\<rparr>]
   \<and> \<lparr>Complete = False, Wait = Returns None, Err = None\<rparr>
       \<notin> set (fst (WatcherMultiplex_Wait
     \<lparr>CompletionList =
        [\<lparr>Complete = True, Wait = Returns (Some (OtherError ''chunk failed'')),
          Err = Some (OtherError ''chunk failed'')\<rparr>,
         \<lparr>Complete = False, Wait = Returns None, Err = None\<rparr>]\<rparr>))"
  by (simp add: WatcherMultiplex_Wait_def)

text \<open>
  C3, amended: \<open>Wait\<close> calls \<open>Wait\<close> on the children in list order up to and
  including the first child whose wait does not return nil, and returns what that child
  returned (its error; or it blocks with that child); the children after it are not
  awaited.  If every child returns nil, all children are awaited and nil is returned.
\<close>

theorem WatcherMultiplex_Wait_first_error:
  "WatcherMultiplex_Wait w =
     (case dropWhile (\<lambda>c. Wait c = Returns None) (CompletionList w) of
        [] \<Rightarrow> (CompletionList w, Returns None)
      | c # rest \<Rightarrow>
          (takeWhile (\<lambda>c. Wait c = Returns None) (CompletionList w) @ [c], Wait c))"
  unfolding WatcherMultiplex_Wait_def by (rule wait_loop_takeWhile)

section \<open>Properties of MaterializeRunner.Run\<close>

lemma local_loop_trace:
  "\<exists>ext. snd (local_loop env sc n i ws tr) = tr @ ext
     \<and> (\<forall>c\<in>set ext. c = Call_Create COPY_TO_ONLINE sc \<or> c = Call_LocalRun)"
proof (induction env sc n i ws tr rule: local_loop.induct)
  case (1 env sc n i ws tr)
  show ?case
  proof (cases "i < n")
    case False
    then show ?thesis by (simp add: local_loop.simps [of env sc n i ws tr])
  next
    case True
    show ?thesis
    proof (cases "Create env i COPY_TO_ONLINE sc")
      case (Inl err)
      then show ?thesis using True by (simp add: local_loop.simps [of env sc n i ws tr])
    next
      case (Inr localRunner)
      show ?thesis
      proof (cases "runner_Run localRunner")
        case (Inl err)
        then show ?thesis using True Inr by (simp add: local_loop.simps [of env sc n i ws tr])
      next
        case run: (Inr watcher)
        from 1 [OF True Inr run]
        obtain ext where ext:
          "snd (local_loop env sc n (Suc i) (ws @ [watcher])
                 (tr @ [Call_Create COPY_TO_ONLINE sc, Call_LocalRun]))
             = (tr @ [Call_Create COPY_TO_ONLINE sc, Call_LocalRun]) @ ext"
          "\<forall>c\<in>set ext. c = Call_Create COPY_TO_ONLINE sc \<or> c = Call_LocalRun"
          by blast
        have "snd (local_loop env sc n i ws tr)
            = tr @ ([Call_Create COPY_TO_ONLINE sc, Call_LocalRun] @ ext)"
          using True Inr run ext(1) by (simp add: local_loop.simps [of env sc n i ws tr])
        moreover have "\<forall>c\<in>set ([Call_Create COPY_TO_ONLINE sc, Call_LocalRun] @ ext).
            c = Call_Create COPY_TO_ONLINE sc \<or> c = Call_LocalRun"
          using ext(2) by simp
        ultimately show ?thesis by blast
      qed
    qed
  qed
qed

lemma dispatch_trace:
  "\<exists>ext. snd (dispatch env cloud sc numChunks tr) = tr @ ext
     \<and> (\<forall>c\<in>set ext. c = Call_NewKubernetesRunner (kubernetes_config sc numChunks)
            \<or> c = Call_KubernetesRun \<or> c = Call_Create COPY_TO_ONLINE sc \<or> c = Call_LocalRun)"
proof -
  consider (k) "cloud = KubernetesMaterializeRunner"
    | (l) "cloud \<noteq> KubernetesMaterializeRunner" "cloud = LocalMaterializeRunner"
    | (n) "cloud \<noteq> KubernetesMaterializeRunner" "cloud \<noteq> LocalMaterializeRunner"
    by blast
  then show ?thesis
  proof cases
    case k
    then show ?thesis
      by (auto simp: dispatch_def Let_def split: sum.splits)
  next
    case l
    obtain ext where ext: "snd (local_loop env sc (nat numChunks) 0 [] tr) = tr @ ext"
      "\<forall>c\<in>set ext. c = Call_Create COPY_TO_ONLINE sc \<or> c = Call_LocalRun"
      using local_loop_trace [of env sc "nat numChunks" 0 "[]" tr] by blast
    show ?thesis
    proof (cases "makeslice_panics env numChunks")
      case True
      then show ?thesis using l by (simp add: dispatch_def)
    next
      case False
      then have "snd (dispatch env cloud sc numChunks tr)
          = snd (local_loop env sc (nat numChunks) 0 [] tr)"
        using l by (auto simp: dispatch_def split: prod.splits sum.splits)
      then show ?thesis using ext by auto
    qed
  next
    case n
    then show ?thesis by (simp add: dispatch_def)
  qed
qed


lemma Run_from_rows_unfold:
  "Run_from_rows env m materialization tr =
     (case NumRows materialization of
        Inl err \<Rightarrow> (ReturnsError (ErrorfW ''num rows'' err), tr @ [Call_NumRows])
      | Inr numRows \<Rightarrow>
          (case Serialize env (chunk_config m materialization (chunkSize_of numRows)) of
             Inl err \<Rightarrow>
               (ReturnsError (ErrorfW ''serialize '' err),
                tr @ [Call_NumRows,
                      Call_Serialize (chunk_config m materialization (chunkSize_of numRows))])
           | Inr sc \<Rightarrow>
               dispatch env (Cloud m) sc (numChunks_of numRows)
                 (tr @ [Call_NumRows,
                        Call_Serialize (chunk_config m materialization (chunkSize_of numRows))])))"
  by (simp add: Run_from_rows_def Let_def chunkSize_of_def numChunks_of_def case_prod_beta
           split: sum.splits)

lemma Run_from_rows_trace:
  "\<exists>ext. snd (Run_from_rows env m materialization tr) = tr @ Call_NumRows # ext"
proof (cases "NumRows materialization")
  case (Inl err)
  then show ?thesis by (simp add: Run_from_rows_unfold)
next
  case (Inr numRows)
  let ?config = "chunk_config m materialization (chunkSize_of numRows)"
  show ?thesis
  proof (cases "Serialize env ?config")
    case (Inl err)
    then show ?thesis using Inr by (simp add: Run_from_rows_unfold)
  next
    case ser: (Inr sc)
    obtain ext where
      "snd (dispatch env (Cloud m) sc (numChunks_of numRows) (tr @ [Call_NumRows, Call_Serialize ?config]))
         = (tr @ [Call_NumRows, Call_Serialize ?config]) @ ext"
      using dispatch_trace by blast
    then show ?thesis
      using Inr ser by (simp add: Run_from_rows_unfold)
  qed
qed

lemma Run_after_materialization:
  assumes "CreateMaterialization (Offline m) (ID m) = Inr materialization"
  shows "Run env m =
     (let err = CreateTable (Online m) (Name (ID m)) (Variant (ID m)) (VType m);
          tr2 = [Call_CreateMaterialization (ID m),
                 Call_CreateTable (Name (ID m)) (Variant (ID m)) (VType m)] in
      if err \<noteq> None \<and> \<not> is_TableAlreadyExists err
      then (ReturnsError (ErrorfW ''create table'' (the err)), tr2)
      else Run_from_rows env m materialization tr2)"
  using assms by (simp add: Run_def Let_def)

lemma is_TableAlreadyExists_iff:
  "is_TableAlreadyExists eo \<longleftrightarrow> (\<exists>name variant. eo = Some (TableAlreadyExists name variant))"
  by (cases eo rule: is_TableAlreadyExists.cases) auto

text \<open>
  C8.  When the online \<open>CreateTable\<close> reports the typed table-already-exists error,
  \<open>Run\<close> treats it as success and proceeds: it goes on to the row count exactly as it
  does after a nil error, and returns what the run with a successful \<open>CreateTable\<close>
  returns.  For a \<open>CreateTable\<close> error of any other kind \<open>Run\<close> returns an error
  (wrapping it) right after the call.  Both under the condition that
  \<open>CreateMaterialization\<close> succeeded, without which \<open>CreateTable\<close> is not called.
\<close>

theorem Run_CreateTable_errors:
  assumes cm: "CreateMaterialization (Offline m) (ID m) = Inr materialization"
    and ct: "CreateTable (Online m) (Name (ID m)) (Variant (ID m)) (VType m) = Some err"
  shows "((\<exists>name variant. err = TableAlreadyExists name variant) \<longrightarrow>
            Run env m = Run_from_rows env m materialization
                          [Call_CreateMaterialization (ID m),
                           Call_CreateTable (Name (ID m)) (Variant (ID m)) (VType m)]
            \<and> Run env m =
                Run env (m\<lparr>Online := (Online m)\<lparr>CreateTable := (\<lambda>name variant vtype. None)\<rparr>\<rparr>)
            \<and> Call_NumRows \<in> set (snd (Run env m)))
       \<and> ((\<forall>name variant. err \<noteq> TableAlreadyExists name variant) \<longrightarrow>
            Run env m =
              (ReturnsError (ErrorfW ''create table'' err),
               [Call_CreateMaterialization (ID m),
                Call_CreateTable (Name (ID m)) (Variant (ID m)) (VType m)]))"
proof (intro conjI impI)
  let ?tr = "[Call_CreateMaterialization (ID m),
              Call_CreateTable (Name (ID m)) (Variant (ID m)) (VType m)]"
  let ?m' = "m\<lparr>Online := (Online m)\<lparr>CreateTable := (\<lambda>name variant vtype. None)\<rparr>\<rparr>"
  assume "\<exists>name variant. err = TableAlreadyExists name variant"
  then have ex: "is_TableAlreadyExists (Some err)"
    by (simp add: is_TableAlreadyExists_iff)
  show a: "Run env m = Run_from_rows env m materialization ?tr"
    using ex ct by (simp add: Run_after_materialization [OF cm])
  have cm': "CreateMaterialization (Offline ?m') (ID ?m') = Inr materialization"
    using cm by simp
  have "Run env ?m' = Run_from_rows env ?m' materialization ?tr"
    by (simp add: Run_after_materialization [OF cm'])
  also have "\<dots> = Run_from_rows env m materialization ?tr"
    by (simp add: Run_from_rows_unfold chunk_config_def split: sum.splits)
  finally show "Run env m = Run env ?m'" using a by simp
  show "Call_NumRows \<in> set (snd (Run env m))"
    using Run_from_rows_trace [of env m materialization ?tr] a by auto
next
  assume "\<forall>name variant. err \<noteq> TableAlreadyExists name variant"
  then have "\<not> is_TableAlreadyExists (Some err)"
    by (simp add: is_TableAlreadyExists_iff)
  then show "Run env m =
      (ReturnsError (ErrorfW ''create table'' err),
       [Call_CreateMaterialization (ID m),
        Call_CreateTable (Name (ID m)) (Variant (ID m)) (VType m)])"
    using ct by (simp add: Run_after_materialization [OF cm])
qed


theorem Run_CreateTable_errors_witness:
  "Run example_collaborators (example_runner 5 (Some (TableAlreadyExists ''feature'' [])) ''LOCAL'')
     = Run example_collaborators (example_runner 5 None ''LOCAL'')
   \<and> Call_NumRows \<in> set (snd (Run example_collaborators
          (example_runner 5 (Some (TableAlreadyExists ''feature'' [])) ''LOCAL'')))
   \<and> Run example_collaborators (example_runner 5 (Some (OtherError ''connection refused'')) ''LOCAL'')
     = (ReturnsError (ErrorfW ''create table'' (OtherError ''connection refused'')),
        [Call_CreateMaterialization \<lparr>Name = ''feature'', Variant = [], Type = Feature\<rparr>,
         Call_CreateTable ''feature'' [] ''int''])"
proof -
  let ?exists = "example_runner 5 (Some (TableAlreadyExists ''feature'' [])) ''LOCAL''"
  let ?broken = "example_runner 5 (Some (OtherError ''connection refused'')) ''LOCAL''"
  have cm1: "CreateMaterialization (Offline ?exists) (ID ?exists)
      = Inr \<lparr>mat_ID = ''m1'', NumRows = Inr 5\<rparr>"
    by (simp add: example_runner_def)
  have ct1: "CreateTable (Online ?exists) (Name (ID ?exists)) (Variant (ID ?exists)) (VType ?exists)
      = Some (TableAlreadyExists ''feature'' [])"
    by (simp add: example_runner_def)
  have cm2: "CreateMaterialization (Offline ?broken) (ID ?broken)
      = Inr \<lparr>mat_ID = ''m1'', NumRows = Inr 5\<rparr>"
    by (simp add: example_runner_def)
  have ct2: "CreateTable (Online ?broken) (Name (ID ?broken)) (Variant (ID ?broken)) (VType ?broken)
      = Some (OtherError ''connection refused'')"
    by (simp add: example_runner_def)
  have upd: "?exists\<lparr>Online := (Online ?exists)\<lparr>CreateTable := (\<lambda>name variant vtype. None)\<rparr>\<rparr>
      = example_runner 5 None ''LOCAL''"
    by (simp add: example_runner_def)
  have a: "Run example_collaborators ?exists = Run example_collaborators (example_runner 5 None ''LOCAL'')
      \<and> Call_NumRows \<in> set (snd (Run example_collaborators ?exists))"
    using Run_CreateTable_errors [OF cm1 ct1, of example_collaborators] unfolding upd by blast
  have b: "Run example_collaborators ?broken
     = (ReturnsError (ErrorfW ''create table'' (OtherError ''connection refused'')),
        [Call_CreateMaterialization (ID ?broken),
         Call_CreateTable (Name (ID ?broken)) (Variant (ID ?broken)) (VType ?broken)])"
    using Run_CreateTable_errors [OF cm2 ct2, of example_collaborators] by blast
  have ids: "ID ?broken = \<lparr>Name = ''feature'', Variant = [], Type = Feature\<rparr>"
    "VType ?broken = ''int''"
    by (simp_all add: example_runner_def)
  have b': "Run example_collaborators ?broken
     = (ReturnsError (ErrorfW ''create table'' (OtherError ''connection refused'')),
        [Call_CreateMaterialization \<lparr>Name = ''feature'', Variant = [], Type = Feature\<rparr>,
         Call_CreateTable ''feature'' [] ''int''])"
    using b by (simp add: ids)
  show ?thesis
    by (rule conjI a [THEN conjunct1] a [THEN conjunct2] b')+
qed

text \<open>
  C10, as stated: for every runner whose \<open>Cloud\<close> is neither \<open>KUBERNETES\<close> nor
  \<open>LOCAL\<close>, \<open>Run\<close> returns the error \<open>no valid job cloud set\<close>, and only after
  calling \<open>CreateMaterialization\<close> and \<open>CreateTable\<close>.  It fails for a runner
  whose offline store cannot create the materialization: \<open>Run\<close> returns the store's
  error after that one call, and \<open>CreateTable\<close> is never called.
\<close>

theorem Run_invalid_cloud_after_failed_materialization:
  "''AZURE'' \<noteq> KubernetesMaterializeRunner \<and> ''AZURE'' \<noteq> LocalMaterializeRunner
   \<and> Run example_collaborators
        ((example_runner 5 None ''AZURE'')
           \<lparr>Offline := \<lparr>offline_Type = ''POSTGRES_OFFLINE'', offline_Config = ''postgres'',
                         CreateMaterialization =
                           (\<lambda>resID. Inl (OtherError ''offline store unreachable''))\<rparr>\<rparr>)
      = (ReturnsError (OtherError ''offline store unreachable''),
         [Call_CreateMaterialization \<lparr>Name = ''feature'', Variant = [], Type = Feature\<rparr>])
   \<and> fst (Run example_collaborators
        ((example_runner 5 None ''AZURE'')
           \<lparr>Offline := \<lparr>offline_Type = ''POSTGRES_OFFLINE'', offline_Config = ''postgres'',
                         CreateMaterialization =
                           (\<lambda>resID. Inl (OtherError ''offline store unreachable''))\<rparr>\<rparr>))
      \<noteq> ReturnsError (Errorf ''no valid job cloud set'')
   \<and> Call_CreateTable ''feature'' [] ''int''
      \<notin> set (snd (Run example_collaborators
        ((example_runner 5 None ''AZURE'')
           \<lparr>Offline := \<lparr>offline_Type = ''POSTGRES_OFFLINE'', offline_Config = ''postgres'',
                         CreateMaterialization =
                           (\<lambda>resID. Inl (OtherError ''offline store unreachable''))\<rparr>\<rparr>)))"
  by (simp add: Run_def example_runner_def KubernetesMaterializeRunner_def
      LocalMaterializeRunner_def)

text \<open>
  C10, amended: for every runner whose \<open>Cloud\<close> is neither \<open>KUBERNETES\<close> nor
  \<open>LOCAL\<close>, \<open>Run\<close> returns an error; \<open>CreateMaterialization\<close> is always its first
  call; whenever the materialization was created, \<open>CreateTable\<close> is its second call; and
  whenever \<open>CreateMaterialization\<close>, \<open>CreateTable\<close> (nil or table-already-exists),
  \<open>NumRows\<close> and the serialization succeed, the error is \<open>no valid job cloud set\<close>,
  returned after exactly those four calls, so the provider side effects have occurred
  although the cloud tag is invalid.
\<close>

theorem Run_invalid_cloud:
  assumes "Cloud m \<noteq> KubernetesMaterializeRunner" and "Cloud m \<noteq> LocalMaterializeRunner"
  shows "(\<exists>err. fst (Run env m) = ReturnsError err)
       \<and> take 1 (snd (Run env m)) = [Call_CreateMaterialization (ID m)]
       \<and> (\<forall>materialization. CreateMaterialization (Offline m) (ID m) = Inr materialization \<longrightarrow>
            take 2 (snd (Run env m)) =
              [Call_CreateMaterialization (ID m),
               Call_CreateTable (Name (ID m)) (Variant (ID m)) (VType m)])
       \<and> (\<forall>materialization numRows sc.
            CreateMaterialization (Offline m) (ID m) = Inr materialization
            \<and> (CreateTable (Online m) (Name (ID m)) (Variant (ID m)) (VType m) = None
               \<or> is_TableAlreadyExists
                    (CreateTable (Online m) (Name (ID m)) (Variant (ID m)) (VType m)))
            \<and> NumRows materialization = Inr numRows
            \<and> Serialize env (chunk_config m materialization (chunkSize_of numRows)) = Inr sc \<longrightarrow>
            Run env m =
              (ReturnsError (Errorf ''no valid job cloud set''),
               [Call_CreateMaterialization (ID m),
                Call_CreateTable (Name (ID m)) (Variant (ID m)) (VType m),
                Call_NumRows,
                Call_Serialize (chunk_config m materialization (chunkSize_of numRows))]))"
proof -
  let ?tr = "[Call_CreateMaterialization (ID m),
              Call_CreateTable (Name (ID m)) (Variant (ID m)) (VType m)]"
  have disp: "dispatch env (Cloud m) sc n tr = (ReturnsError (Errorf ''no valid job cloud set''), tr)"
    for sc n tr
    using assms by (simp add: dispatch_def)
  have rows: "\<exists>err ext. Run_from_rows env m materialization tr = (ReturnsError err, tr @ ext)"
    for materialization tr
    by (simp add: Run_from_rows_unfold disp split: sum.splits)
  have fails: "\<exists>err. fst (Run env m) = ReturnsError err"
  proof (cases "CreateMaterialization (Offline m) (ID m)")
    case (Inl err)
    then show ?thesis by (simp add: Run_def)
  next
    case (Inr materialization)
    show ?thesis
      using rows [of materialization ?tr]
      by (auto simp add: Run_after_materialization [OF Inr] Let_def)
  qed
  have first: "take 1 (snd (Run env m)) = [Call_CreateMaterialization (ID m)]"
  proof (cases "CreateMaterialization (Offline m) (ID m)")
    case (Inl err)
    then show ?thesis by (simp add: Run_def)
  next
    case (Inr materialization)
    show ?thesis
      using rows [of materialization ?tr]
      by (auto simp add: Run_after_materialization [OF Inr] Let_def)
  qed
  have second: "take 2 (snd (Run env m)) = ?tr"
    if cm: "CreateMaterialization (Offline m) (ID m) = Inr materialization" for materialization
    using rows [of materialization ?tr]
    by (auto simp add: Run_after_materialization [OF cm] Let_def)
  have reached: "Run env m =
      (ReturnsError (Errorf ''no valid job cloud set''),
       ?tr @ [Call_NumRows,
              Call_Serialize (chunk_config m materialization (chunkSize_of numRows))])"
    if cm: "CreateMaterialization (Offline m) (ID m) = Inr materialization"
      and ct: "CreateTable (Online m) (Name (ID m)) (Variant (ID m)) (VType m) = None
               \<or> is_TableAlreadyExists
                    (CreateTable (Online m) (Name (ID m)) (Variant (ID m)) (VType m))"
      and nr: "NumRows materialization = Inr numRows"
      and ser: "Serialize env (chunk_config m materialization (chunkSize_of numRows)) = Inr sc"
    for materialization numRows sc
  proof -
    have "Run env m = Run_from_rows env m materialization ?tr"
      using ct by (auto simp add: Run_after_materialization [OF cm] Let_def)
    then show ?thesis
      using nr ser by (simp add: Run_from_rows_unfold disp)
  qed
  show ?thesis
    using fails first second reached by (intro conjI allI impI) auto
qed


theorem Run_invalid_cloud_witness:
  "''AZURE'' \<noteq> KubernetesMaterializeRunner \<and> ''AZURE'' \<noteq> LocalMaterializeRunner
   \<and> Run example_collaborators (example_runner 5 None ''AZURE'') =
      (ReturnsError (Errorf ''no valid job cloud set''),
       [Call_CreateMaterialization \<lparr>Name = ''feature'', Variant = [], Type = Feature\<rparr>,
        Call_CreateTable ''feature'' [] ''int'',
        Call_NumRows,
        Call_Serialize
          \<lparr>OnlineType = ''REDIS_ONLINE'', OfflineType = ''POSTGRES_OFFLINE'',
           OnlineConfig = ''redis'', OfflineConfig = ''postgres'', MaterializedID = ''m1'',
           ResourceID = \<lparr>Name = ''feature'', Variant = [], Type = Feature\<rparr>,
           ChunkSize = 5\<rparr>])"
proof -
  let ?m = "example_runner 5 None ''AZURE''"
  let ?mat = "\<lparr>mat_ID = ''m1'', NumRows = Inr (5::int)\<rparr>"
  have k: "Cloud ?m \<noteq> KubernetesMaterializeRunner"
    by (simp add: example_runner_def KubernetesMaterializeRunner_def)
  have l: "Cloud ?m \<noteq> LocalMaterializeRunner"
    by (simp add: example_runner_def LocalMaterializeRunner_def)
  have cs: "chunkSize_of 5 = 5"
    by (simp add: chunkSize_of_def chunk_plan_def MAXIMUM_CHUNK_ROWS_def)
  have pre: "CreateMaterialization (Offline ?m) (ID ?m) = Inr ?mat
      \<and> (CreateTable (Online ?m) (Name (ID ?m)) (Variant (ID ?m)) (VType ?m) = None
         \<or> is_TableAlreadyExists
              (CreateTable (Online ?m) (Name (ID ?m)) (Variant (ID ?m)) (VType ?m)))
      \<and> NumRows ?mat = Inr 5
      \<and> Serialize example_collaborators (chunk_config ?m ?mat (chunkSize_of 5))
          = Inr ''chunk config of m1''"
    by (simp add: example_runner_def example_collaborators_def chunk_config_def)
  have "Run example_collaborators ?m =
      (ReturnsError (Errorf ''no valid job cloud set''),
       [Call_CreateMaterialization (ID ?m),
        Call_CreateTable (Name (ID ?m)) (Variant (ID ?m)) (VType ?m),
        Call_NumRows,
        Call_Serialize (chunk_config ?m ?mat (chunkSize_of 5))])"
    using Run_invalid_cloud [OF k l, of example_collaborators] pre by blast
  then have "Run example_collaborators ?m =
      (ReturnsError (Errorf ''no valid job cloud set''),
       [Call_CreateMaterialization \<lparr>Name = ''feature'', Variant = [], Type = Feature\<rparr>,
        Call_CreateTable ''feature'' [] ''int'',
        Call_NumRows,
        Call_Serialize
          \<lparr>OnlineType = ''REDIS_ONLINE'', OfflineType = ''POSTGRES_OFFLINE'',
           OnlineConfig = ''redis'', OfflineConfig = ''postgres'', MaterializedID = ''m1'',
           ResourceID = \<lparr>Name = ''feature'', Variant = [], Type = Feature\<rparr>,
           ChunkSize = 5\<rparr>])"
    by (simp add: cs chunk_config_def example_runner_def)
  moreover have "''AZURE'' \<noteq> KubernetesMaterializeRunner" "''AZURE'' \<noteq> LocalMaterializeRunner"
    by (simp_all add: KubernetesMaterializeRunner_def LocalMaterializeRunner_def)
  ultimately show ?thesis by blast
qed

text \<open>
  C6.  The claim: each per-chunk runner configuration built by \<open>Run\<close> references the
  materialization ID, the chunk's own chunk index and both store configurations, so that
  distinct chunk workers receive configurations with distinct chunk indices.  Evaluated on
  a local run of 2048 rows, which has two chunks: \<open>Run\<close> serializes one configuration,
  with no chunk index, and the loop hands the same bytes to both chunk workers; the loop
  index reaches neither \<open>Create\<close> nor the worker.
\<close>

theorem Run_local_chunks_share_configuration:
  "snd (Run example_collaborators (example_runner 2048 None ''LOCAL'')) =
     [Call_CreateMaterialization \<lparr>Name = ''feature'', Variant = [], Type = Feature\<rparr>,
      Call_CreateTable ''feature'' [] ''int'',
      Call_NumRows,
      Call_Serialize
        \<lparr>OnlineType = ''REDIS_ONLINE'', OfflineType = ''POSTGRES_OFFLINE'',
         OnlineConfig = ''redis'', OfflineConfig = ''postgres'', MaterializedID = ''m1'',
         ResourceID = \<lparr>Name = ''feature'', Variant = [], Type = Feature\<rparr>,
         ChunkSize = 1024\<rparr>,
      Call_Create COPY_TO_ONLINE ''chunk config of m1'', Call_LocalRun,
      Call_Create COPY_TO_ONLINE ''chunk config of m1'', Call_LocalRun]
   \<and> local_configs (snd (Run example_collaborators (example_runner 2048 None ''LOCAL'')))
       = [''chunk config of m1'', ''chunk config of m1'']
   \<and> \<not> distinct (local_configs (snd (Run example_collaborators (example_runner 2048 None ''LOCAL''))))"
proof -
  have cp: "chunk_plan 2048 = (1024, 2)"
    by (simp add: chunk_plan_def MAXIMUM_CHUNK_ROWS_def go_div_def wrap_int64_def)
  have tr: "snd (Run example_collaborators (example_runner 2048 None ''LOCAL'')) =
     [Call_CreateMaterialization \<lparr>Name = ''feature'', Variant = [], Type = Feature\<rparr>,
      Call_CreateTable ''feature'' [] ''int'',
      Call_NumRows,
      Call_Serialize
        \<lparr>OnlineType = ''REDIS_ONLINE'', OfflineType = ''POSTGRES_OFFLINE'',
         OnlineConfig = ''redis'', OfflineConfig = ''postgres'', MaterializedID = ''m1'',
         ResourceID = \<lparr>Name = ''feature'', Variant = [], Type = Feature\<rparr>,
         ChunkSize = 1024\<rparr>,
      Call_Create COPY_TO_ONLINE ''chunk config of m1'', Call_LocalRun,
      Call_Create COPY_TO_ONLINE ''chunk config of m1'', Call_LocalRun]"
    by (simp add: Run_def Run_from_rows_def dispatch_def cp chunk_config_def
        example_runner_def example_collaborators_def local_loop.simps
        KubernetesMaterializeRunner_def LocalMaterializeRunner_def numeral_2_eq_2)
  show ?thesis unfolding tr by simp
qed

lemma Run_trace_shape:
  "snd (Run env m) = [Call_CreateMaterialization (ID m)]
   \<or> snd (Run env m) = [Call_CreateMaterialization (ID m),
                         Call_CreateTable (Name (ID m)) (Variant (ID m)) (VType m)]
   \<or> snd (Run env m) = [Call_CreateMaterialization (ID m),
                         Call_CreateTable (Name (ID m)) (Variant (ID m)) (VType m),
                         Call_NumRows]
   \<or> (\<exists>materialization numRows ext.
         CreateMaterialization (Offline m) (ID m) = Inr materialization
       \<and> NumRows materialization = Inr numRows
       \<and> snd (Run env m) =
           [Call_CreateMaterialization (ID m),
            Call_CreateTable (Name (ID m)) (Variant (ID m)) (VType m),
            Call_NumRows,
            Call_Serialize (chunk_config m materialization (chunkSize_of numRows))] @ ext
       \<and> (\<forall>c\<in>set ext. \<exists>sc.
             Serialize env (chunk_config m materialization (chunkSize_of numRows)) = Inr sc
             \<and> (c = Call_NewKubernetesRunner (kubernetes_config sc (numChunks_of numRows))
                \<or> c = Call_KubernetesRun \<or> c = Call_Create COPY_TO_ONLINE sc
                \<or> c = Call_LocalRun)))"
proof (cases "CreateMaterialization (Offline m) (ID m)")
  case (Inl err)
  then show ?thesis by (simp add: Run_def)
next
  case cm: (Inr materialization)
  let ?tr = "[Call_CreateMaterialization (ID m),
              Call_CreateTable (Name (ID m)) (Variant (ID m)) (VType m)]"
  let ?err = "CreateTable (Online m) (Name (ID m)) (Variant (ID m)) (VType m)"
  show ?thesis
  proof (cases "?err \<noteq> None \<and> \<not> is_TableAlreadyExists ?err")
    case True
    then show ?thesis by (simp add: Run_after_materialization [OF cm])
  next
    case False
    then have run: "Run env m = Run_from_rows env m materialization ?tr"
      by (auto simp add: Run_after_materialization [OF cm] Let_def)
    show ?thesis
    proof (cases "NumRows materialization")
      case (Inl err)
      then show ?thesis by (simp add: run Run_from_rows_unfold)
    next
      case nr: (Inr numRows)
      let ?config = "chunk_config m materialization (chunkSize_of numRows)"
      let ?tr2 = "?tr @ [Call_NumRows, Call_Serialize ?config]"
      show ?thesis
      proof (cases "Serialize env ?config")
        case (Inl err)
        then have "snd (Run env m) = ?tr2 @ []"
          using nr by (simp add: run Run_from_rows_unfold)
        then show ?thesis using cm nr by auto
      next
        case ser: (Inr sc)
        obtain ext where ext:
          "snd (dispatch env (Cloud m) sc (numChunks_of numRows) ?tr2) = ?tr2 @ ext"
          "\<forall>c\<in>set ext. c = Call_NewKubernetesRunner (kubernetes_config sc (numChunks_of numRows))
            \<or> c = Call_KubernetesRun \<or> c = Call_Create COPY_TO_ONLINE sc \<or> c = Call_LocalRun"
          using dispatch_trace [of env "Cloud m" sc "numChunks_of numRows" ?tr2] by blast
        have "snd (Run env m) = ?tr2 @ ext"
          using nr ser ext(1) by (simp add: run Run_from_rows_unfold)
        then show ?thesis using cm nr ser ext(2) by auto
      qed
    qed
  qed
qed

text \<open>
  The same on every run: whatever the number of chunks, all the workers created by one
  run are handed the same serialized configuration.
\<close>

lemma local_configs_append: "local_configs (xs @ ys) = local_configs xs @ local_configs ys"
  by (induction xs rule: local_configs.induct) simp_all

lemma local_configs_only:
  assumes "\<forall>c\<in>set tr. c = Call_NewKubernetesRunner k \<or> c = Call_KubernetesRun
             \<or> c = Call_Create name sc \<or> c = Call_LocalRun"
  shows "set (local_configs tr) \<subseteq> {sc}"
  using assms by (induction tr rule: local_configs.induct) auto

lemma Run_workers_share_bytes:
  assumes "a \<in> set (local_configs (snd (Run env m)))"
    and "b \<in> set (local_configs (snd (Run env m)))"
  shows "a = b"
proof -
  from Run_trace_shape [of env m] assms(1)
  obtain materialization numRows ext where
    tr: "snd (Run env m) =
           [Call_CreateMaterialization (ID m),
            Call_CreateTable (Name (ID m)) (Variant (ID m)) (VType m),
            Call_NumRows,
            Call_Serialize (chunk_config m materialization (chunkSize_of numRows))] @ ext"
    and ext: "\<forall>c\<in>set ext. \<exists>sc.
             Serialize env (chunk_config m materialization (chunkSize_of numRows)) = Inr sc
             \<and> (c = Call_NewKubernetesRunner (kubernetes_config sc (numChunks_of numRows))
                \<or> c = Call_KubernetesRun \<or> c = Call_Create COPY_TO_ONLINE sc
                \<or> c = Call_LocalRun)"
    by (elim disjE exE conjE) auto
  have lc: "local_configs (snd (Run env m)) = local_configs ext"
    unfolding tr by (simp add: local_configs_append)
  show ?thesis
  proof (cases "Serialize env (chunk_config m materialization (chunkSize_of numRows))")
    case (Inl err)
    then have "ext = []" using ext by (cases ext) auto
    then show ?thesis using assms(1) lc by simp
  next
    case (Inr sc)
    then have "\<forall>c\<in>set ext.
        c = Call_NewKubernetesRunner (kubernetes_config sc (numChunks_of numRows))
        \<or> c = Call_KubernetesRun \<or> c = Call_Create COPY_TO_ONLINE sc \<or> c = Call_LocalRun"
      using ext by auto
    then have "set (local_configs ext) \<subseteq> {sc}"
      by (rule local_configs_only)
    then show ?thesis using assms lc by auto
  qed
qed

text \<open>
  A local run whose chunk count is beyond the allocation limit panics on line 126, after
  the serialization and before any worker is created.
\<close>

lemma Run_local_allocation_panics:
  "Run example_collaborators (example_runner 9223372036854775807 None ''LOCAL'') =
     (Panics ''makeslice: len out of range'',
      [Call_CreateMaterialization \<lparr>Name = ''feature'', Variant = [], Type = Feature\<rparr>,
       Call_CreateTable ''feature'' [] ''int'',
       Call_NumRows,
       Call_Serialize
         \<lparr>OnlineType = ''REDIS_ONLINE'', OfflineType = ''POSTGRES_OFFLINE'',
          OnlineConfig = ''redis'', OfflineConfig = ''postgres'', MaterializedID = ''m1'',
          ResourceID = \<lparr>Name = ''feature'', Variant = [], Type = Feature\<rparr>,
          ChunkSize = 1024\<rparr>])"
proof -
  have cp: "chunk_plan 9223372036854775807 = (1024, 9007199254740992)"
    by (simp add: chunk_plan_def MAXIMUM_CHUNK_ROWS_def go_div_def wrap_int64_def)
  show ?thesis
    by (simp add: Run_def Run_from_rows_def dispatch_def cp chunk_config_def
        example_runner_def example_collaborators_def
        KubernetesMaterializeRunner_def LocalMaterializeRunner_def)
qed

section \<open>Properties of the template resolver\<close>

lemma emit_emit: "emit a (emit b r) = emit (a @ b) r"
  by (cases "(b, r)" rule: emit.cases) auto

lemma emit_error_empty: "emit s r = (out, Some e) \<Longrightarrow> out = []"
  by (cases "(s, r)" rule: emit.cases) auto

lemma scan_error_empty: "scan M st s = (out, Some e) \<Longrightarrow> out = []"
  by (induction M st s arbitrary: out rule: scan.induct)
     (auto split: if_splits option.splits dest: emit_error_empty)

lemma emit_Nil_scan: "emit [] (scan M st s) = scan M st s"
proof (cases "scan M st s")
  case (Pair out eo)
  then show ?thesis
    by (cases eo) (auto dest: scan_error_empty)
qed

lemma split_on_concat:
  "split_on c s = Some (a, b) \<Longrightarrow> s = a @ [c, c] @ b"
  by (induction c s arbitrary: a rule: split_on.induct) (fastforce split: if_splits)+

lemma scan_inside:
  "scan M (Some key) s =
     (case split_on (CHR ''}'') s of
        None \<Rightarrow> (''{{'' @ key @ s, None)
      | Some (k2, rest) \<Rightarrow>
          (case M (key @ k2) of
             None \<Rightarrow> ([], Some (unresolved_reference (key @ k2)))
           | Some v \<Rightarrow> emit (quoted v) (scan M None rest)))"
proof (induction "CHR ''}''" s arbitrary: key rule: split_on.induct)
  case (1 x y rest)
  show ?case
  proof (cases "x = CHR ''}'' \<and> y = CHR ''}''")
    case True
    then show ?thesis by (simp split: option.splits)
  next
    case False
    then have "scan M (Some key) (x # y # rest) = scan M (Some (key @ [x])) (y # rest)"
      by auto
    also note 1 [OF False, of "key @ [x]"]
    finally show ?thesis using False
      by (auto split: option.splits)
  qed
qed simp_all

lemma scan_outside:
  "scan M None s =
     (case split_on (CHR ''{'') s of
        None \<Rightarrow> (s, None)
      | Some (pre, post) \<Rightarrow> emit pre (scan M (Some []) post))"
proof (induction "CHR ''{''" s rule: split_on.induct)
  case (1 x y rest)
  show ?case
  proof (cases "x = CHR ''{'' \<and> y = CHR ''{''")
    case True
    then show ?thesis by (simp add: emit_Nil_scan)
  next
    case False
    then have "scan M None (x # y # rest) = emit [x] (scan M None (y # rest))"
      by auto
    also note 1 [OF False]
    finally show ?thesis using False
      by (auto split: option.splits simp: emit_emit)
  qed
qed simp_all


lemma unparse_parse: "unparse (parse template) = template"
proof (induction template rule: parse.induct)
  case (1 template)
  show ?case
  proof (cases "split_on (CHR ''{'') template")
    case None
    then show ?thesis by (simp add: parse.simps [of template] unparse_def)
  next
    case (Some a)
    obtain pre post where a: "a = (pre, post)" by (cases a)
    show ?thesis
    proof (cases "split_on (CHR ''}'') post")
      case None
      then show ?thesis using Some a by (simp add: parse.simps [of template] unparse_def)
    next
      case inner: (Some b)
      obtain key rest where b: "b = (key, rest)" by (cases b)
      have ih: "unparse (parse rest) = rest"
        using 1 [OF Some a [symmetric] inner b [symmetric]] .
      have p: "parse template = Lit pre # Placeholder key # parse rest"
        using Some a inner b by (simp add: parse.simps [of template])
      have t: "template = pre @ ''{{'' @ key @ ''}}'' @ rest"
        using split_on_concat [of "CHR ''{''" template pre post]
          split_on_concat [of "CHR ''}''" post key rest] Some a inner b by simp
      have "unparse (parse template) = pre @ ''{{'' @ key @ ''}}'' @ unparse (parse rest)"
        unfolding p by (simp add: unparse_def)
      then show ?thesis
        using ih t by simp
    qed
  qed
qed

lemma scan_parse:
  "scan M None template =
     (case first_missing M (segment_keys (parse template)) of
        None \<Rightarrow> (concat (map (render M) (parse template)), None)
      | Some key \<Rightarrow> ([], Some (unresolved_reference key)))"
proof (induction template rule: parse.induct)
  case (1 template)
  show ?case
  proof (cases "split_on (CHR ''{'') template")
    case None
    then show ?thesis
      by (simp add: parse.simps [of template] scan_outside [of M template])
  next
    case (Some a)
    obtain pre post where a: "a = (pre, post)" by (cases a)
    have out: "scan M None template = emit pre (scan M (Some []) post)"
      using Some a by (simp add: scan_outside [of M template])
    show ?thesis
    proof (cases "split_on (CHR ''}'') post")
      case None
      have t: "template = pre @ ''{{'' @ post"
        using split_on_concat [of "CHR ''{''" template pre post] Some a by simp
      have "scan M (Some []) post = (''{{'' @ post, None)"
        using None by (simp add: scan_inside [of M "[]" post])
      then have "scan M None template = (template, None)"
        using out t by simp
      moreover have "parse template = [Lit template]"
        using Some a None by (simp add: parse.simps [of template])
      ultimately show ?thesis by simp
    next
      case inner: (Some b)
      obtain key rest where b: "b = (key, rest)" by (cases b)
      have ih: "scan M None rest =
         (case first_missing M (segment_keys (parse rest)) of
            None \<Rightarrow> (concat (map (render M) (parse rest)), None)
          | Some key \<Rightarrow> ([], Some (unresolved_reference key)))"
        using 1 [OF Some a [symmetric] inner b [symmetric]] .
      have p: "parse template = Lit pre # Placeholder key # parse rest"
        using Some a inner b by (simp add: parse.simps [of template])
      have ins: "scan M (Some []) post =
          (case M key of
             None \<Rightarrow> ([], Some (unresolved_reference key))
           | Some v \<Rightarrow> emit (quoted v) (scan M None rest))"
        using inner b by (simp add: scan_inside [of M "[]" post] split: option.splits)
      show ?thesis
      proof (cases "M key")
        case None
        then show ?thesis unfolding out ins p by simp
      next
        case (Some v)
        then show ?thesis unfolding out ins p ih
          by (simp split: option.splits)
      qed
    qed
  qed
qed

lemma first_missing_None: "first_missing M keys = None \<longleftrightarrow> (\<forall>k\<in>set keys. k \<in> dom M)"
  by (induction keys) auto

lemma first_missing_Some:
  "first_missing M keys = Some k \<Longrightarrow> k \<in> set keys \<and> k \<notin> dom M"
  by (induction keys) (auto split: if_splits)

text \<open>
  C4.  For every template \<open>T\<close> and mapping \<open>M\<close>: \<open>T\<close> is the sequence of its text
  pieces and placeholder occurrences (\<open>unparse (parse T) = T\<close>); if every placeholder
  occurring in \<open>T\<close> has a key in \<open>M\<close>, \<open>templateReplace\<close> returns \<open>T\<close> with each
  occurrence replaced by its value wrapped in double quotes, and no error; if some
  placeholder has no key, it returns an error naming the first missing key, and the empty
  string, not a partially substituted one.
\<close>

theorem templateReplace_substitutes:
  "unparse (parse T) = T
   \<and> ((\<forall>k\<in>set (placeholders T). k \<in> dom M) \<longrightarrow>
        templateReplace T M = (substituted T M, None))
   \<and> ((\<exists>k\<in>set (placeholders T). k \<notin> dom M) \<longrightarrow>
        (\<exists>k\<in>set (placeholders T). k \<notin> dom M
           \<and> first_missing M (placeholders T) = Some k
           \<and> templateReplace T M = ([], Some (unresolved_reference k))))"
proof (intro conjI impI)
  show "unparse (parse T) = T" by (rule unparse_parse)
next
  assume "\<forall>k\<in>set (placeholders T). k \<in> dom M"
  then have "first_missing M (segment_keys (parse T)) = None"
    by (simp add: first_missing_None placeholders_def)
  then show "templateReplace T M = (substituted T M, None)"
    by (simp add: templateReplace_def substituted_def scan_parse [of M T])
next
  assume "\<exists>k\<in>set (placeholders T). k \<notin> dom M"
  then have "first_missing M (segment_keys (parse T)) \<noteq> None"
    by (simp add: first_missing_None placeholders_def)
  then obtain k where k: "first_missing M (segment_keys (parse T)) = Some k" by blast
  then have "k \<in> set (placeholders T)" "k \<notin> dom M"
    using first_missing_Some [OF k] by (simp_all add: placeholders_def)
  moreover have "templateReplace T M = ([], Some (unresolved_reference k))"
    using k by (simp add: templateReplace_def scan_parse [of M T])
  ultimately show "\<exists>k\<in>set (placeholders T). k \<notin> dom M
           \<and> first_missing M (placeholders T) = Some k
           \<and> templateReplace T M = ([], Some (unresolved_reference k))"
    using k by (auto simp: placeholders_def)
qed

theorem templateReplace_substitutes_witness:
  "templateReplace ''Some example text {{name1.variant1}} and more {{name2.variant2}}''
      [''name1.variant1'' \<mapsto> ''replacement1'', ''name2.variant2'' \<mapsto> ''replacement2'']
     = (''Some example text '' @ quoted ''replacement1'' @ '' and more '' @ quoted ''replacement2'',
        None)
   \<and> templateReplace ''Some example text {{name1.variant1}} and more {{name2.variant2}}''
      [''name1.variant1'' \<mapsto> ''replacement1'', ''name3.variant3'' \<mapsto> ''replacement2'']
     = ([], Some (unresolved_reference ''name2.variant2''))"
proof -
  let ?T = "''Some example text {{name1.variant1}} and more {{name2.variant2}}''"
  let ?M = "[''name1.variant1'' \<mapsto> ''replacement1'', ''name2.variant2'' \<mapsto> ''replacement2'']"
  let ?W = "[''name1.variant1'' \<mapsto> ''replacement1'', ''name3.variant3'' \<mapsto> ''replacement2'']"
  have p: "parse ?T =
      [Lit ''Some example text '', Placeholder ''name1.variant1'',
       Lit '' and more '', Placeholder ''name2.variant2'', Lit []]"
    by (simp add: parse.simps)
  have ph: "placeholders ?T = [''name1.variant1'', ''name2.variant2'']"
    by (simp add: placeholders_def p)
  have all_keys: "\<forall>k\<in>set (placeholders ?T). k \<in> dom ?M"
    unfolding ph by simp
  have sub: "substituted ?T ?M =
      ''Some example text '' @ quoted ''replacement1'' @ '' and more '' @ quoted ''replacement2''"
    by (simp add: substituted_def p)
  have a: "templateReplace ?T ?M = (substituted ?T ?M, None)"
    using templateReplace_substitutes [of ?T ?M] all_keys by blast
  have missing: "\<exists>k\<in>set (placeholders ?T). k \<notin> dom ?W"
    unfolding ph by simp
  have fm: "first_missing ?W (placeholders ?T) = Some ''name2.variant2''"
    unfolding ph by simp
  have b: "templateReplace ?T ?W = ([], Some (unresolved_reference ''name2.variant2''))"
    using templateReplace_substitutes [of ?T ?W] missing fm by auto
  show ?thesis
    using a b unfolding sub by blast
qed

section \<open>Properties of the dependency resolution\<close>

lemma mapNameVariantsToTables_error:
  assumes "nv \<in> set deps"
    and "sources nv = None \<or> (\<exists>source. sources nv = Some source \<and> source_status source \<noteq> READY)"
  shows "\<exists>err. mapNameVariantsToTables sources deps = Inl err"
  using assms
proof (induction deps)
  case Nil
  then show ?case by simp
next
  case (Cons d deps)
  obtain name variant where d: "d = (name, variant)" by (cases d)
  show ?case
  proof (cases "nv = d")
    case True
    then show ?thesis using Cons.prems(2) d by (auto split: option.splits)
  next
    case False
    then have "nv \<in> set deps" using Cons.prems(1) by simp
    then obtain err where "mapNameVariantsToTables sources deps = Inl err"
      using Cons.IH Cons.prems(2) by blast
    then show ?thesis using d by (auto split: option.splits)
  qed
qed

text \<open>
  C5.  For every list of dependencies, if a listed dependency does not exist in the metadata
  or has a status other than ready, \<open>mapNameVariantsToTables\<close> returns an error, and the
  transformation routine returns an error without calling \<open>CreateTransformation\<close>.
\<close>

theorem dependency_gate:
  assumes "nv \<in> set deps"
    and "sources nv = None \<or> (\<exists>source. sources nv = Some source \<and> source_status source \<noteq> READY)"
  shows "(\<exists>err. mapNameVariantsToTables sources deps = Inl err)
       \<and> (\<exists>err. runSQLJob sources CreateTransformation resID template deps = (Some err, []))
       \<and> Call_CreateTransformation resID sql
            \<notin> set (snd (runSQLJob sources CreateTransformation resID template deps))"
proof -
  obtain err where err: "mapNameVariantsToTables sources deps = Inl err"
    using mapNameVariantsToTables_error [of nv deps sources] assms by blast
  then have "runSQLJob sources CreateTransformation resID template deps = (Some err, [])"
    by (simp add: runSQLJob_def)
  then show ?thesis using err by simp
qed

theorem dependency_gate_witness:
  "(\<exists>err. mapNameVariantsToTables Map.empty [(''ghost'', [])] = Inl err)
   \<and> (\<exists>err. mapNameVariantsToTables
               [(''source'', []) \<mapsto> \<lparr>source_status = CREATED, source_table = ''t''\<rparr>]
               [(''source'', [])] = Inl err)
   \<and> (\<exists>err. runSQLJob
               [(''source'', []) \<mapsto> \<lparr>source_status = CREATED, source_table = ''t''\<rparr>]
               (\<lambda>resID sql. None)
               \<lparr>Name = ''transformation'', Variant = [], Type = Transformation\<rparr>
               ''SELECT * FROM {{source.}}''
               [(''source'', [])] = (Some err, []))"
proof -
  let ?sources = "[(''source'', []) \<mapsto> \<lparr>source_status = CREATED, source_table = ''t''\<rparr>]"
  have g1: "(''ghost'', []) \<in> set [(''ghost'', [])]" by simp
  have g2: "Map.empty (''ghost'', []) = None
      \<or> (\<exists>source. Map.empty (''ghost'', []) = Some source \<and> source_status source \<noteq> READY)"
    by simp
  have n1: "(''source'', []) \<in> set [(''source'', [])]" by simp
  have n2: "?sources (''source'', []) = None
      \<or> (\<exists>source. ?sources (''source'', []) = Some source \<and> source_status source \<noteq> READY)"
    by simp
  note ghost = dependency_gate [where nv = "(''ghost'', [])" and deps = "[(''ghost'', [])]"
      and sources = Map.empty, OF g1 g2]
  note not_ready = dependency_gate [where nv = "(''source'', [])" and deps = "[(''source'', [])]"
      and sources = ?sources and CreateTransformation = "\<lambda>resID sql. None"
      and resID = "\<lparr>Name = ''transformation'', Variant = [], Type = Transformation\<rparr>"
      and template = "''SELECT * FROM {{source.}}''", OF n1 n2]
  show ?thesis
    using ghost not_ready by blast
qed

section \<open>Properties of the job spawners\<close>

text \<open>
  C9.  For every runner name that is not in the registry, \<open>GetJobRunner\<close> of the
  in-process spawner and of the cluster spawner returns an error, and the registry and the
  submitted jobs are what they were.
\<close>

theorem GetJobRunner_unknown_name:
  assumes "jobName \<notin> dom (factories st)"
  shows "(\<exists>err. MemoryJobSpawner_GetJobRunner st jobName config etcdEndpoints resID = (Inl err, st))
       \<and> (\<exists>err. KubernetesJobSpawner_GetJobRunner st jobName config etcdEndpoints resID = (Inl err, st))"
  using assms
  by (auto simp: MemoryJobSpawner_GetJobRunner_def KubernetesJobSpawner_GetJobRunner_def
      registry_Create_def split: option.splits)

theorem GetJobRunner_unknown_name_witness:
  "(\<exists>err. MemoryJobSpawner_GetJobRunner \<lparr>factories = Map.empty, submitted = []\<rparr>
             ''ghost_job'' [] [''localhost:2379''] \<lparr>Name = [], Variant = [], Type = NoType\<rparr>
           = (Inl err, \<lparr>factories = Map.empty, submitted = []\<rparr>))
   \<and> (\<exists>err. KubernetesJobSpawner_GetJobRunner \<lparr>factories = Map.empty, submitted = []\<rparr>
             ''ghost_job'' [] [''localhost:2379''] \<lparr>Name = [], Variant = [], Type = NoType\<rparr>
           = (Inl err, \<lparr>factories = Map.empty, submitted = []\<rparr>))"
proof -
  have h: "''ghost_job'' \<notin> dom (factories \<lparr>factories = Map.empty, submitted = []\<rparr>)"
    by simp
  show ?thesis
    by (rule GetJobRunner_unknown_name [OF h])
qed

section \<open>Properties of the job protocol\<close>

text \<open>
  C2.  For every resource whose lock is free, that is stored and not yet ready, and whose
  routine completes successfully, \<open>executeJob\<close> sets the status to ready-online if the
  resource is a feature and to ready for every other kind, and deletes the job key, so the
  job key is absent afterwards.
\<close>

theorem executeJob_success:
  assumes "resID \<notin> locks s"
    and "statuses s resID = Some status"
    and "status \<noteq> READY" and "status \<noteq> READY_ONLINE"
    and "routine resID = None"
  shows "statuses (fst (executeJob routine s resID)) resID
           = Some (if fst resID = FeatureKind then READY_ONLINE else READY)
       \<and> resID \<notin> jobs (fst (executeJob routine s resID))
       \<and> snd (executeJob routine s resID) = None"
  using assms
  by (simp add: executeJob_def success_status_def acquire_def release_def delete_job_def
      set_status_def submit_cron_def Let_def)

theorem executeJob_success_witness:
  "statuses (fst (executeJob (\<lambda>resID. None)
       \<lparr>statuses = [(FeatureKind, ''feature'', []) \<mapsto> CREATED], schedules = (\<lambda>resID. []),
        jobs = {(FeatureKind, ''feature'', [])}, locks = {}, crons = []\<rparr>
       (FeatureKind, ''feature'', []))) (FeatureKind, ''feature'', []) = Some READY_ONLINE
   \<and> (FeatureKind, ''feature'', []) \<notin> jobs (fst (executeJob (\<lambda>resID. None)
       \<lparr>statuses = [(FeatureKind, ''feature'', []) \<mapsto> CREATED], schedules = (\<lambda>resID. []),
        jobs = {(FeatureKind, ''feature'', [])}, locks = {}, crons = []\<rparr>
       (FeatureKind, ''feature'', [])))
   \<and> statuses (fst (executeJob (\<lambda>resID. None)
       \<lparr>statuses = [(TrainingSetKind, ''ts'', []) \<mapsto> CREATED], schedules = (\<lambda>resID. []),
        jobs = {(TrainingSetKind, ''ts'', [])}, locks = {}, crons = []\<rparr>
       (TrainingSetKind, ''ts'', []))) (TrainingSetKind, ''ts'', []) = Some READY
   \<and> (TrainingSetKind, ''ts'', []) \<notin> jobs (fst (executeJob (\<lambda>resID. None)
       \<lparr>statuses = [(TrainingSetKind, ''ts'', []) \<mapsto> CREATED], schedules = (\<lambda>resID. []),
        jobs = {(TrainingSetKind, ''ts'', [])}, locks = {}, crons = []\<rparr>
       (TrainingSetKind, ''ts'', [])))"
proof -
  let ?f = "(FeatureKind, ''feature'', [])"
  let ?sf = "\<lparr>statuses = [?f \<mapsto> CREATED], schedules = (\<lambda>resID. []),
        jobs = {?f}, locks = {}, crons = []\<rparr>"
  let ?t = "(TrainingSetKind, ''ts'', [])"
  let ?st = "\<lparr>statuses = [?t \<mapsto> CREATED], schedules = (\<lambda>resID. []),
        jobs = {?t}, locks = {}, crons = []\<rparr>"
  let ?routine = "\<lambda>resID::JobID. None::go_error option"
  have f1: "?f \<notin> locks ?sf" and f2: "statuses ?sf ?f = Some CREATED" by simp_all
  have t1: "?t \<notin> locks ?st" and t2: "statuses ?st ?t = Some CREATED" by simp_all
  have c: "CREATED \<noteq> READY" "CREATED \<noteq> READY_ONLINE" by simp_all
  have r: "?routine x = None" for x by simp
  note a = executeJob_success [where routine = ?routine, OF f1 f2 c r]
  note b = executeJob_success [where routine = ?routine, OF t1 t2 c r]
  show ?thesis using a b by simp
qed

end
